theory Spec2Isabelle
  imports Main "HOL-Library.Word"
begin

unbundle bit_operations_syntax

section \<open>JavaScript values\<close>

text \<open>
  A JavaScript string is a sequence of UTF-16 code units. The model keeps the code units
  as natural numbers; \<open>str\<close> injects an ASCII literal. A non-ASCII literal of the
  source is written as the UTF-16 code units of the characters the file holds. In
  \<open>transformations.ts\<close> a literal that shows an emoji is a string of several
  characters: the hand of \<open>emojiSkinToneEncode\<close> is the four code units
  \<open>[63743, 252, 235, 227]\<close>.
\<close>

type_synonym jsstring = "nat list"

definition str :: "string \<Rightarrow> jsstring" where
  "str s = map of_char s"

datatype jsvalue =
    Undefined
  | JNum int
  | JBool bool
  | JStr jsstring
  | JObj "(jsstring \<times> jsvalue) list"

text \<open>\<open>Record<string, unknown>\<close>: the option bag of a pipeline step.\<close>

type_synonym options = "(jsstring \<times> jsvalue) list"

text \<open>
  What a \<open>throw\<close> carries. \<open>Error m\<close> is \<open>new Error(m)\<close>; \<open>URIError\<close> is thrown by
  \<open>encodeURIComponent\<close> and \<open>decodeURIComponent\<close>; \<open>InvalidCharacterError\<close> is the
  \<open>DOMException\<close> of \<open>atob\<close> and \<open>btoa\<close>; \<open>NonError v\<close> is a thrown value that is
  not an instance of \<open>Error\<close>.
\<close>

datatype js_error =
    Error jsstring
  | URIError
  | InvalidCharacterError
  | NonError jsvalue

type_synonym transform_fn = "jsstring \<Rightarrow> options option \<Rightarrow> js_error + jsstring"

text \<open>
  The catalogue binds some eighty functions of the algorithm library. The ones the
  properties below depend on are embedded; every other one, and the Unicode case tables of
  the platform, are reached through a parameter \<open>lib\<close> that maps the source name of
  a function and its argument list to its outcome. Each theorem holds for every \<open>lib\<close>.
  A function that draws from \<open>Math.random\<close> is among them; \<open>lib\<close> fixes its draw.
\<close>

type_synonym library = "string \<Rightarrow> jsvalue list \<Rightarrow> js_error + jsstring"

definition optionsValue :: "options option \<Rightarrow> jsvalue" where
  "optionsValue opts = (case opts of None \<Rightarrow> Undefined | Some kv \<Rightarrow> JObj kv)"

text \<open>A call \<open>fn(currentValue, step.options)\<close> of a function that is not embedded.\<close>

definition extern :: "library \<Rightarrow> string \<Rightarrow> transform_fn" where
  "extern lib f = (\<lambda>input opts. lib f [JStr input, optionsValue opts])"

text \<open>\<open>options?.key\<close>\<close>

definition getOption :: "options option \<Rightarrow> jsstring \<Rightarrow> jsvalue" where
  "getOption opts key =
     (case opts of
        None \<Rightarrow> Undefined
      | Some kv \<Rightarrow> (case map_of kv key of None \<Rightarrow> Undefined | Some v \<Rightarrow> v))"

fun truthy :: "jsvalue \<Rightarrow> bool" where
  "truthy Undefined = False"
| "truthy (JNum n) = (n \<noteq> 0)"
| "truthy (JBool b) = b"
| "truthy (JStr s) = (s \<noteq> [])"
| "truthy (JObj kv) = True"

text \<open>\<open>a || b\<close>\<close>

definition orElse :: "jsvalue \<Rightarrow> jsvalue \<Rightarrow> jsvalue" where
  "orElse a b = (if truthy a then a else b)"

section \<open>Platform primitives\<close>

text \<open>
  The functions of this section belong to the JavaScript platform, not to the repository.
  They follow ECMAScript (string iteration, \<open>escape\<close>, \<open>unescape\<close>,
  \<open>encodeURIComponent\<close>, \<open>decodeURIComponent\<close>, \<open>RegExp.prototype.test\<close>) and the
  WHATWG standards (\<open>TextEncoder\<close>, \<open>TextDecoder\<close>, \<open>btoa\<close>, \<open>atob\<close>).
\<close>

subsection \<open>Characters and digits\<close>

definition isDigit :: "nat \<Rightarrow> bool" where
  "isDigit c = (48 \<le> c \<and> c \<le> 57)"

definition isUpper :: "nat \<Rightarrow> bool" where
  "isUpper c = (65 \<le> c \<and> c \<le> 90)"

definition isLower :: "nat \<Rightarrow> bool" where
  "isLower c = (97 \<le> c \<and> c \<le> 122)"

definition isHexDigit :: "nat \<Rightarrow> bool" where
  "isHexDigit c = (isDigit c \<or> (65 \<le> c \<and> c \<le> 70) \<or> (97 \<le> c \<and> c \<le> 102))"

definition hexDigitValue :: "nat \<Rightarrow> nat" where
  "hexDigitValue c = (if isDigit c then c - 48 else if c \<le> 70 then c - 55 else c - 87)"

definition hexValue :: "jsstring \<Rightarrow> nat" where
  "hexValue ds = foldl (\<lambda>acc d. 16 * acc + hexDigitValue d) 0 ds"

definition hexDigitUpper :: "nat \<Rightarrow> nat" where
  "hexDigitUpper n = (if n < 10 then 48 + n else 55 + n)"

definition hexDigitLower :: "nat \<Rightarrow> nat" where
  "hexDigitLower n = (if n < 10 then 48 + n else 87 + n)"

text \<open>\<open>n.toString(16)\<close> and \<open>n.toString(10)\<close> of a non-negative integer.\<close>

function toStringHex :: "nat \<Rightarrow> jsstring" where
  "toStringHex n = (if n < 16 then [hexDigitLower n] else toStringHex (n div 16) @ [hexDigitLower (n mod 16)])"
  by pat_completeness auto
termination
  by (relation "measure (\<lambda>n. n)") auto

function toStringDec :: "nat \<Rightarrow> jsstring" where
  "toStringDec n = (if n < 10 then [48 + n] else toStringDec (n div 10) @ [48 + n mod 10])"
  by pat_completeness auto
termination
  by (relation "measure (\<lambda>n. n)") auto

definition padStart :: "nat \<Rightarrow> nat \<Rightarrow> jsstring \<Rightarrow> jsstring" where
  "padStart n c s = replicate (n - length s) c @ s"

fun join :: "jsstring \<Rightarrow> jsstring list \<Rightarrow> jsstring" where
  "join sep [] = []"
| "join sep [x] = x"
| "join sep (x # y # ys) = x @ sep @ join sep (y # ys)"

text \<open>\<open>String.prototype.indexOf\<close> and \<open>includes\<close> (here \<open>includesStr\<close>), \<open>Array.prototype.indexOf\<close>.\<close>

fun indexOfFrom :: "nat \<Rightarrow> jsstring \<Rightarrow> jsstring \<Rightarrow> int" where
  "indexOfFrom i [] p = (if p = [] then int i else - 1)"
| "indexOfFrom i (c # cs) p =
     (if take (length p) (c # cs) = p then int i else indexOfFrom (i + 1) cs p)"

definition indexOf :: "jsstring \<Rightarrow> jsstring \<Rightarrow> int" where
  "indexOf s p = indexOfFrom 0 s p"

definition includesStr :: "jsstring \<Rightarrow> jsstring \<Rightarrow> bool" where
  "includesStr s p = (indexOf s p \<noteq> - 1)"

fun arrayIndexOfFrom :: "nat \<Rightarrow> 'a list \<Rightarrow> 'a \<Rightarrow> int" where
  "arrayIndexOfFrom i [] x = - 1"
| "arrayIndexOfFrom i (y # ys) x = (if y = x then int i else arrayIndexOfFrom (i + 1) ys x)"

definition arrayIndexOf :: "'a list \<Rightarrow> 'a \<Rightarrow> int" where
  "arrayIndexOf xs x = arrayIndexOfFrom 0 xs x"

subsection \<open>UTF-16 and UTF-8\<close>

definition isLeadSurrogate :: "nat \<Rightarrow> bool" where
  "isLeadSurrogate c = (55296 \<le> c \<and> c \<le> 56319)"

definition isTrailSurrogate :: "nat \<Rightarrow> bool" where
  "isTrailSurrogate c = (56320 \<le> c \<and> c \<le> 57343)"

text \<open>
  The string iterator (\<open>[...s]\<close>, \<open>for (const ch of s)\<close>): one element per code point,
  a surrogate pair staying together, a lone surrogate standing alone.
\<close>

fun codePoints :: "jsstring \<Rightarrow> jsstring list" where
  "codePoints [] = []"
| "codePoints [c] = [[c]]"
| "codePoints (c # d # cs) =
     (if isLeadSurrogate c \<and> isTrailSurrogate d then [c, d] # codePoints cs
      else [c] # codePoints (d # cs))"

text \<open>The scalar value of one element of \<open>codePoints\<close>; a lone surrogate reads U+FFFD.\<close>

fun scalarValue :: "jsstring \<Rightarrow> nat" where
  "scalarValue [c] = (if isLeadSurrogate c \<or> isTrailSurrogate c then 65533 else c)"
| "scalarValue [c, d] = 65536 + (c - 55296) * 1024 + (d - 56320)"
| "scalarValue cs = 65533"

definition isLoneSurrogate :: "jsstring \<Rightarrow> bool" where
  "isLoneSurrogate cp = (case cp of [c] \<Rightarrow> isLeadSurrogate c \<or> isTrailSurrogate c | _ \<Rightarrow> False)"

definition utf8Bytes :: "nat \<Rightarrow> nat list" where
  "utf8Bytes cp =
     (if cp < 128 then [cp]
      else if cp < 2048 then [192 + cp div 64, 128 + cp mod 64]
      else if cp < 65536 then [224 + cp div 4096, 128 + (cp div 64) mod 64, 128 + cp mod 64]
      else [240 + cp div 262144, 128 + (cp div 4096) mod 64, 128 + (cp div 64) mod 64,
            128 + cp mod 64])"

definition utf16Units :: "nat \<Rightarrow> jsstring" where
  "utf16Units cp =
     (if cp < 65536 then [cp]
      else [55296 + (cp - 65536) div 1024, 56320 + (cp - 65536) mod 1024])"

text \<open>\<open>new TextEncoder().encode(s)\<close>\<close>

definition TextEncoder_encode :: "jsstring \<Rightarrow> nat list" where
  "TextEncoder_encode s = concat (map (\<lambda>cp. utf8Bytes (scalarValue cp)) (codePoints s))"

text \<open>
  \<open>new TextDecoder().decode(bytes)\<close>: the WHATWG UTF-8 decoder, which replaces every
  malformed sequence by U+FFFD and drops a leading byte order mark.
\<close>

record utf8_decoder =
  code_point :: nat
  bytes_seen :: nat
  bytes_needed :: nat
  lower_boundary :: nat
  upper_boundary :: nat

definition utf8_initial :: utf8_decoder where
  "utf8_initial = \<lparr> code_point = 0, bytes_seen = 0, bytes_needed = 0,
                     lower_boundary = 128, upper_boundary = 191 \<rparr>"

text \<open>The handler's step for a byte read while no continuation byte is due.\<close>

definition utf8_lead :: "nat \<Rightarrow> jsstring \<times> utf8_decoder" where
  "utf8_lead b =
     (if b \<le> 127 then ([b], utf8_initial)
      else if 194 \<le> b \<and> b \<le> 223 then
        ([], utf8_initial \<lparr> code_point := b mod 32, bytes_needed := 1 \<rparr>)
      else if 224 \<le> b \<and> b \<le> 239 then
        ([], utf8_initial \<lparr> code_point := b mod 16, bytes_needed := 2,
                             lower_boundary := (if b = 224 then 160 else 128),
                             upper_boundary := (if b = 237 then 159 else 191) \<rparr>)
      else if 240 \<le> b \<and> b \<le> 244 then
        ([], utf8_initial \<lparr> code_point := b mod 8, bytes_needed := 3,
                             lower_boundary := (if b = 240 then 144 else 128),
                             upper_boundary := (if b = 244 then 143 else 191) \<rparr>)
      else ([65533], utf8_initial))"

fun utf8_decode :: "utf8_decoder \<Rightarrow> nat list \<Rightarrow> jsstring" where
  "utf8_decode st [] = (if bytes_needed st \<noteq> 0 then [65533] else [])"
| "utf8_decode st (b # bs) =
     (if bytes_needed st = 0 then fst (utf8_lead b) @ utf8_decode (snd (utf8_lead b)) bs
      else if b < lower_boundary st \<or> upper_boundary st < b then
        65533 # fst (utf8_lead b) @ utf8_decode (snd (utf8_lead b)) bs
      else if bytes_seen st + 1 \<noteq> bytes_needed st then
        utf8_decode (st \<lparr> code_point := code_point st * 64 + b mod 64,
                          bytes_seen := bytes_seen st + 1,
                          lower_boundary := 128, upper_boundary := 191 \<rparr>) bs
      else utf16Units (code_point st * 64 + b mod 64) @ utf8_decode utf8_initial bs)"

definition stripBOM :: "nat list \<Rightarrow> nat list" where
  "stripBOM bs = (if take 3 bs = [239, 187, 191] then drop 3 bs else bs)"

text \<open>\<open>new Uint8Array(numbers)\<close> keeps each number modulo 256.\<close>

definition Uint8Array :: "nat list \<Rightarrow> nat list" where
  "Uint8Array xs = map (\<lambda>x. x mod 256) xs"

definition TextDecoder_decode :: "nat list \<Rightarrow> jsstring" where
  "TextDecoder_decode bs = utf8_decode utf8_initial (stripBOM bs)"

subsection \<open>Percent escapes\<close>

definition isAlnum :: "nat \<Rightarrow> bool" where
  "isAlnum c = (isUpper c \<or> isLower c \<or> isDigit c)"

text \<open>The characters \<open>encodeURIComponent\<close> leaves alone: letters, digits and \<open>-_.!~*'()\<close>.\<close>

definition uriUnescaped :: "nat \<Rightarrow> bool" where
  "uriUnescaped c = (isAlnum c \<or> c \<in> set [45, 95, 46, 33, 126, 42, 39, 40, 41])"

definition percentHex :: "nat \<Rightarrow> jsstring" where
  "percentHex b = [37, hexDigitUpper (b div 16), hexDigitUpper (b mod 16)]"

definition encodeURIComponent :: "jsstring \<Rightarrow> js_error + jsstring" where
  "encodeURIComponent s =
     (if list_ex isLoneSurrogate (codePoints s) then Inl URIError
      else Inr (concat (map (\<lambda>cp. if length cp = 1 \<and> uriUnescaped (hd cp) then cp
                                   else concat (map percentHex (utf8Bytes (scalarValue cp))))
                            (codePoints s))))"

text \<open>\<open>unescape\<close> (ECMAScript Annex B): \<open>%uXXXX\<close> and \<open>%XX\<close> become one code unit.\<close>

function unescape :: "jsstring \<Rightarrow> jsstring" where
  "unescape [] = []"
| "unescape (c # cs) =
     (if c = 37 \<and> 5 \<le> length cs \<and> hd cs = 117 \<and> list_all isHexDigit (take 4 (tl cs))
      then hexValue (take 4 (tl cs)) # unescape (drop 5 cs)
      else if c = 37 \<and> 2 \<le> length cs \<and> list_all isHexDigit (take 2 cs)
      then hexValue (take 2 cs) # unescape (drop 2 cs)
      else c # unescape cs)"
  by pat_completeness auto
termination
  by (relation "measure length") auto

text \<open>The characters \<open>escape\<close> leaves alone: letters, digits and \<open>@*_+-./\<close>.\<close>

definition escapeUnescaped :: "nat \<Rightarrow> bool" where
  "escapeUnescaped c = (isAlnum c \<or> c \<in> set [64, 42, 95, 43, 45, 46, 47])"

definition escape :: "jsstring \<Rightarrow> jsstring" where
  "escape s =
     concat (map (\<lambda>c. if escapeUnescaped c then [c]
                      else if c < 256 then percentHex c
                      else [37, 117, hexDigitUpper (c div 4096), hexDigitUpper ((c div 256) mod 16),
                            hexDigitUpper ((c div 16) mod 16), hexDigitUpper (c mod 16)]) s)"

text \<open>
  \<open>decodeURIComponent\<close>: every \<open>%XX\<close> is an octet, the octets must form well-formed
  UTF-8; anything else throws \<open>URIError\<close>.
\<close>

datatype uri_token = Lit nat | Octet nat

function uriTokens :: "jsstring \<Rightarrow> uri_token list option" where
  "uriTokens [] = Some []"
| "uriTokens (c # cs) =
     (if c \<noteq> 37 then map_option (Cons (Lit c)) (uriTokens cs)
      else if 2 \<le> length cs \<and> list_all isHexDigit (take 2 cs)
      then map_option (Cons (Octet (hexValue (take 2 cs)))) (uriTokens (drop 2 cs))
      else None)"
  by pat_completeness auto
termination
  by (relation "measure length") auto

fun isContinuation :: "uri_token \<Rightarrow> bool" where
  "isContinuation (Octet b) = (128 \<le> b \<and> b \<le> 191)"
| "isContinuation (Lit c) = False"

fun tokenByte :: "uri_token \<Rightarrow> nat" where
  "tokenByte (Octet b) = b"
| "tokenByte (Lit c) = c"

text \<open>The code point of a lead octet and its continuation octets, if well formed.\<close>

definition utf8Value :: "nat \<Rightarrow> nat list \<Rightarrow> nat option" where
  "utf8Value b os =
     (let n = length os;
          v = foldl (\<lambda>acc octet. acc * 64 + octet mod 64) (b mod 2 ^ (6 - n)) os
      in if n = 1 \<and> 128 \<le> v then Some v
         else if n = 2 \<and> 2048 \<le> v \<and> \<not> (55296 \<le> v \<and> v \<le> 57343) then Some v
         else if n = 3 \<and> 65536 \<le> v \<and> v \<le> 1114111 then Some v
         else None)"

definition utf8SequenceLength :: "nat \<Rightarrow> nat" where
  "utf8SequenceLength b =
     (if 192 \<le> b \<and> b < 224 then 2 else if 224 \<le> b \<and> b < 240 then 3
      else if 240 \<le> b \<and> b < 248 then 4 else 0)"

function decodeTokens :: "uri_token list \<Rightarrow> jsstring option" where
  "decodeTokens [] = Some []"
| "decodeTokens (Lit c # ts) = map_option (Cons c) (decodeTokens ts)"
| "decodeTokens (Octet b # ts) =
     (if b < 128 then map_option (Cons b) (decodeTokens ts)
      else if utf8SequenceLength b = 0 then None
      else if length ts < utf8SequenceLength b - 1 then None
      else if \<not> list_all isContinuation (take (utf8SequenceLength b - 1) ts) then None
      else (case utf8Value b (map tokenByte (take (utf8SequenceLength b - 1) ts)) of
              None \<Rightarrow> None
            | Some v \<Rightarrow> map_option (append (utf16Units v))
                           (decodeTokens (drop (utf8SequenceLength b - 1) ts))))"
  by pat_completeness auto
termination
  by (relation "measure length") auto

definition decodeURIComponent :: "jsstring \<Rightarrow> js_error + jsstring" where
  "decodeURIComponent s =
     (case uriTokens s of
        None \<Rightarrow> Inl URIError
      | Some ts \<Rightarrow> (case decodeTokens ts of None \<Rightarrow> Inl URIError | Some r \<Rightarrow> Inr r))"

subsection \<open>Base64 of the platform\<close>

definition base64Alphabet :: jsstring where
  "base64Alphabet = str ''ABCDEFGHIJKLMNOPQRSTUVWXYZabcdefghijklmnopqrstuvwxyz0123456789+/''"

fun base64Groups :: "nat list \<Rightarrow> jsstring" where
  "base64Groups (a # b # c # bs) =
     [base64Alphabet ! (a div 4), base64Alphabet ! ((a mod 4) * 16 + b div 16),
      base64Alphabet ! ((b mod 16) * 4 + c div 64), base64Alphabet ! (c mod 64)] @ base64Groups bs"
| "base64Groups [a, b] =
     [base64Alphabet ! (a div 4), base64Alphabet ! ((a mod 4) * 16 + b div 16),
      base64Alphabet ! ((b mod 16) * 4), 61]"
| "base64Groups [a] = [base64Alphabet ! (a div 4), base64Alphabet ! ((a mod 4) * 16), 61, 61]"
| "base64Groups [] = []"

text \<open>\<open>btoa\<close> throws when a code unit does not fit a byte.\<close>

definition btoa :: "jsstring \<Rightarrow> js_error + jsstring" where
  "btoa s = (if list_ex (\<lambda>c. 255 < c) s then Inl InvalidCharacterError else Inr (base64Groups s))"

definition isBase64Char :: "nat \<Rightarrow> bool" where
  "isBase64Char c = (isAlnum c \<or> c = 43 \<or> c = 47)"

definition base64Index :: "nat \<Rightarrow> nat" where
  "base64Index c =
     (if isUpper c then c - 65 else if isLower c then c - 71 else if isDigit c then c + 4
      else if c = 43 then 62 else 63)"

fun base64Sextets :: "nat list \<Rightarrow> nat list" where
  "base64Sextets (a # b # c # d # vs) =
     [a * 4 + b div 16, (b mod 16) * 16 + c div 4, (c mod 4) * 64 + d] @ base64Sextets vs"
| "base64Sextets [a, b, c] = [a * 4 + b div 16, (b mod 16) * 16 + c div 4]"
| "base64Sextets [a, b] = [a * 4 + b div 16]"
| "base64Sextets vs = []"

definition isAsciiWhitespace :: "nat \<Rightarrow> bool" where
  "isAsciiWhitespace c = (c \<in> set [9, 10, 12, 13, 32])"

definition stripPadding :: "jsstring \<Rightarrow> jsstring" where
  "stripPadding d =
     (if length d mod 4 = 0 \<and> d \<noteq> [] \<and> last d = 61 then
        (if butlast d \<noteq> [] \<and> last (butlast d) = 61 then butlast (butlast d) else butlast d)
      else d)"

text \<open>\<open>atob\<close>: the forgiving Base64 decoder.\<close>

definition atob :: "jsstring \<Rightarrow> js_error + jsstring" where
  "atob s =
     (let d = stripPadding (filter (\<lambda>c. \<not> isAsciiWhitespace c) s)
      in if length d mod 4 = 1 \<or> list_ex (\<lambda>c. \<not> isBase64Char c) d then Inl InvalidCharacterError
         else Inr (base64Sextets (map base64Index d)))"

subsection \<open>Regular expressions\<close>

text \<open>
  A pattern without back references matches a string exactly when the string is in its
  language, so \<open>test\<close> is decided by derivatives. A character class is a list of code
  unit ranges. \<open>matches\<close> is for a pattern written between \<open>^\<close> and \<open>$\<close>, \<open>search\<close>
  for one without anchors.
\<close>

datatype regex =
    Fail
  | Eps
  | Cls "(nat \<times> nat) list"
  | Cat regex regex
  | Alt regex regex
  | Star regex

definition inClass :: "(nat \<times> nat) list \<Rightarrow> nat \<Rightarrow> bool" where
  "inClass rs c = list_ex (\<lambda>r. fst r \<le> c \<and> c \<le> snd r) rs"

fun nullable :: "regex \<Rightarrow> bool" where
  "nullable Fail = False"
| "nullable Eps = True"
| "nullable (Cls rs) = False"
| "nullable (Cat r s) = (nullable r \<and> nullable s)"
| "nullable (Alt r s) = (nullable r \<or> nullable s)"
| "nullable (Star r) = True"

definition cat :: "regex \<Rightarrow> regex \<Rightarrow> regex" where
  "cat r s = (if r = Fail \<or> s = Fail then Fail else if r = Eps then s else Cat r s)"

definition alt :: "regex \<Rightarrow> regex \<Rightarrow> regex" where
  "alt r s = (if r = Fail then s else if s = Fail then r else if r = s then r else Alt r s)"

fun deriv :: "nat \<Rightarrow> regex \<Rightarrow> regex" where
  "deriv c Fail = Fail"
| "deriv c Eps = Fail"
| "deriv c (Cls rs) = (if inClass rs c then Eps else Fail)"
| "deriv c (Cat r s) =
     (if nullable r then alt (cat (deriv c r) s) (deriv c s) else cat (deriv c r) s)"
| "deriv c (Alt r s) = alt (deriv c r) (deriv c s)"
| "deriv c (Star r) = cat (deriv c r) (Star r)"

definition matches :: "regex \<Rightarrow> jsstring \<Rightarrow> bool" where
  "matches r s = nullable (foldl (\<lambda>q c. deriv c q) r s)"

definition anyUnit :: regex where
  "anyUnit = Cls [(0, 65535)]"

definition search :: "regex \<Rightarrow> jsstring \<Rightarrow> bool" where
  "search r s = matches (Cat (Star anyUnit) (Cat r (Star anyUnit))) s"

definition Plus :: "regex \<Rightarrow> regex" where
  "Plus r = Cat r (Star r)"

definition Opt :: "regex \<Rightarrow> regex" where
  "Opt r = Alt r Eps"

definition Lits :: "jsstring \<Rightarrow> regex" where
  "Lits s = foldr (\<lambda>c r. Cat (Cls [(c, c)]) r) s Eps"

text \<open>\<open>\s\<close>, \<open>\d\<close> and \<open>\w\<close> as ranges.\<close>

definition reSpace :: "(nat \<times> nat) list" where
  "reSpace = [(9, 13), (32, 32), (160, 160), (5760, 5760), (8192, 8202), (8232, 8233),
              (8239, 8239), (8287, 8287), (12288, 12288), (65279, 65279)]"

definition reDigit :: "(nat \<times> nat) list" where
  "reDigit = [(48, 57)]"

definition reWord :: "(nat \<times> nat) list" where
  "reWord = [(65, 90), (97, 122), (48, 57), (95, 95)]"

definition reHex :: "(nat \<times> nat) list" where
  "reHex = [(48, 57), (97, 102), (65, 70)]"

definition reAlpha :: "(nat \<times> nat) list" where
  "reAlpha = [(65, 90), (97, 122)]"

text \<open>The ranges that hold exactly the characters of a string.\<close>

definition chars :: "string \<Rightarrow> (nat \<times> nat) list" where
  "chars s = map (\<lambda>c. (of_char c, of_char c)) s"

text \<open>
  \<open>String.prototype.toUpperCase\<close>. Basic Latin is mapped here; the upper case of any
  other code point comes from the Unicode tables of the platform, through \<open>lib\<close>.
\<close>

definition upperOther :: "library \<Rightarrow> jsstring \<Rightarrow> jsstring" where
  "upperOther lib cp =
     (case lib ''String.prototype.toUpperCase'' [JStr cp] of Inr u \<Rightarrow> u | Inl e \<Rightarrow> cp)"

definition toUpperCase :: "library \<Rightarrow> jsstring \<Rightarrow> jsstring" where
  "toUpperCase lib s =
     concat (map (\<lambda>cp. if length cp = 1 \<and> hd cp < 128
                        then [if isLower (hd cp) then hd cp - 32 else hd cp]
                        else upperOther lib cp) (codePoints s))"

section \<open>Algorithm library\<close>

subsection \<open>Base64 and Base32 (\<open>transformations.ts\<close>)\<close>

text \<open>\<open>btoa(unescape(encodeURIComponent(input)))\<close>\<close>

definition base64Encode :: "jsstring \<Rightarrow> js_error + jsstring" where
  "base64Encode input =
     (case encodeURIComponent input of Inl e \<Rightarrow> Inl e | Inr u \<Rightarrow> btoa (unescape u))"

text \<open>\<open>decodeURIComponent(escape(atob(input)))\<close>\<close>

definition base64Decode :: "jsstring \<Rightarrow> js_error + jsstring" where
  "base64Decode input =
     (case atob input of Inl e \<Rightarrow> Inl e | Inr a \<Rightarrow> decodeURIComponent (escape a))"

definition BASE32_ALPHABET :: jsstring where
  "BASE32_ALPHABET = str ''ABCDEFGHIJKLMNOPQRSTUVWXYZ234567''"

text \<open>\<open>input.replace(/=+$/, '')\<close>: the trailing run of \<open>=\<close> is removed.\<close>

definition stripTrailingEquals :: "jsstring \<Rightarrow> jsstring" where
  "stripTrailingEquals s = rev (dropWhile (\<lambda>c. c = 61) (rev s))"

text \<open>
  The decoding loop. \<open>buffer\<close> is a 32-bit integer: \<open><<\<close> and \<open>|\<close> wrap, \<open>>>\<close> is the
  arithmetic shift. A character outside the alphabet is skipped.
\<close>

fun base32Decode_loop ::
  "32 word \<Rightarrow> nat \<Rightarrow> nat list \<Rightarrow> jsstring list \<Rightarrow> nat list" where
  "base32Decode_loop buffer bitsLeft bytes [] = bytes"
| "base32Decode_loop buffer bitsLeft bytes (char # rest) =
     (if indexOf BASE32_ALPHABET char = - 1 then base32Decode_loop buffer bitsLeft bytes rest
      else if bitsLeft + 5 \<ge> 8 then
        base32Decode_loop
          (push_bit 5 buffer OR word_of_int (indexOf BASE32_ALPHABET char))
          (bitsLeft + 5 - 8)
          (bytes @ [unat (signed_drop_bit ((bitsLeft + 5 - 8) mod 32)
                      (push_bit 5 buffer OR word_of_int (indexOf BASE32_ALPHABET char)) AND 255)])
          rest
      else
        base32Decode_loop
          (push_bit 5 buffer OR word_of_int (indexOf BASE32_ALPHABET char))
          (bitsLeft + 5) bytes rest)"

definition base32Decode :: "library \<Rightarrow> jsstring \<Rightarrow> jsstring" where
  "base32Decode lib input =
     TextDecoder_decode (Uint8Array
       (base32Decode_loop 0 0 [] (codePoints (toUpperCase lib (stripTrailingEquals input)))))"

subsection \<open>Emoji skin tone (\<open>transformations.ts\<close>)\<close>

text \<open>
  The five literals of \<open>SKIN_TONES\<close> and the literal of \<open>baseEmoji\<close>, which the
  decoder and the skin tone heuristic repeat: each is a string of four code units.
\<close>

definition SKIN_TONES :: "jsstring list" where
  "SKIN_TONES =
     [[63743, 252, 232, 170], [63743, 252, 232, 186], [63743, 252, 232, 937], [63743, 252, 232, 230], [63743, 252, 232, 248]]"

definition baseEmoji :: jsstring where
  "baseEmoji = [63743, 252, 235, 227]"

definition emojiSkinToneEncode :: "jsstring \<Rightarrow> jsstring" where
  "emojiSkinToneEncode input =
     concat (map (\<lambda>b. baseEmoji @ SKIN_TONES ! ((b div 32) mod 5) @ baseEmoji @ SKIN_TONES ! (b mod 5))
                 (TextEncoder_encode input))"

text \<open>
  \<open>for (let i = 0; i < chars.length - 3; i++)\<close>, with \<open>i += 3\<close> inside when a group
  of four is read.
\<close>

function emojiSkinToneDecode_loop :: "jsstring list \<Rightarrow> nat \<Rightarrow> nat list \<Rightarrow> nat list" where
  "emojiSkinToneDecode_loop chs i bytes =
     (if i + 3 < length chs then
        (if chs ! i = baseEmoji \<and> chs ! (i + 2) = baseEmoji
            \<and> arrayIndexOf SKIN_TONES (chs ! (i + 1)) \<noteq> - 1
            \<and> arrayIndexOf SKIN_TONES (chs ! (i + 3)) \<noteq> - 1
         then emojiSkinToneDecode_loop chs (i + 3 + 1)
                (bytes @ [nat (arrayIndexOf SKIN_TONES (chs ! (i + 1)) * 32
                               + arrayIndexOf SKIN_TONES (chs ! (i + 3)))])
         else emojiSkinToneDecode_loop chs (i + 1) bytes)
      else bytes)"
  by pat_completeness auto
termination
  by (relation "measure (\<lambda>(chs, i, bytes). length chs - i)") auto

definition emojiSkinToneDecode :: "jsstring \<Rightarrow> jsstring" where
  "emojiSkinToneDecode input =
     TextDecoder_decode (Uint8Array (emojiSkinToneDecode_loop (codePoints input) 0 []))"

subsection \<open>Polybius square (\<open>new-transformations.ts\<close>)\<close>

definition POLYBIUS_GRID :: "jsstring list list" where
  "POLYBIUS_GRID =
     [[str ''A'', str ''B'', str ''C'', str ''D'', str ''E''],
      [str ''F'', str ''G'', str ''H'', str ''I'', str ''K''],
      [str ''L'', str ''M'', str ''N'', str ''O'', str ''P''],
      [str ''Q'', str ''R'', str ''S'', str ''T'', str ''U''],
      [str ''V'', str ''W'', str ''X'', str ''Y'', str ''Z'']]"

text \<open>The two nested loops over \<open>row\<close> and \<open>col\<close>: the first cell that holds the character.\<close>

definition polybiusCell :: "nat \<Rightarrow> jsstring" where
  "polybiusCell c =
     (case find (\<lambda>rc. POLYBIUS_GRID ! fst rc ! snd rc = [c])
                (List.product [0, 1, 2, 3, 4] [0, 1, 2, 3, 4]) of
        Some rc \<Rightarrow> toStringDec (fst rc + 1) @ toStringDec (snd rc + 1)
      | None \<Rightarrow> [c])"

definition polybiusEncode :: "library \<Rightarrow> jsstring \<Rightarrow> jsstring" where
  "polybiusEncode lib input =
     join (str '' '')
       (map polybiusCell (map (\<lambda>c. if c = 74 then 73 else c) (toUpperCase lib input)))"

text \<open>\<open>input.match(/\d{2}/g)\<close>: the pairs of digits, read left to right without overlap.\<close>

fun digitPairs :: "jsstring \<Rightarrow> (nat \<times> nat) list" where
  "digitPairs (a # b # rest) =
     (if isDigit a \<and> isDigit b then (a, b) # digitPairs rest else digitPairs (b # rest))"
| "digitPairs rest = []"

definition polybiusDecode :: "jsstring \<Rightarrow> jsstring" where
  "polybiusDecode input =
     concat (map (\<lambda>pair.
        (if int (fst pair) - 48 - 1 \<ge> 0 \<and> int (fst pair) - 48 - 1 < 5
            \<and> int (snd pair) - 48 - 1 \<ge> 0 \<and> int (snd pair) - 48 - 1 < 5
         then POLYBIUS_GRID ! nat (int (fst pair) - 48 - 1) ! nat (int (snd pair) - 48 - 1)
         else str ''?'')) (digitPairs input))"

subsection \<open>The synchronous SHA-256 (\<open>new-transformations.ts\<close>)\<close>

text \<open>
  \<open>hash = ((hash << 5n) - hash + char) & 0xFFFFFFFFFFFFFFFFn\<close> over the code units, on
  unbounded integers; the sixteen hex digits are then written four times.
\<close>

definition sha256Encode :: "jsstring \<Rightarrow> jsstring" where
  "sha256Encode input =
     (let hash = foldl (\<lambda>hash char. (push_bit 5 hash - hash + int char) AND 18446744073709551615)
                       (0 :: int) input;
          base = padStart 16 48 (toStringHex (nat hash))
      in take 64 (base @ base @ base @ base))"

subsection \<open>MD5 (\<open>new-transformations.ts\<close>)\<close>

text \<open>
  The numbers of the source are doubles, brought back to 32 bits by \<open>>>> 0\<close> and by the
  bitwise operators; no intermediate sum reaches \<open>2^53\<close>, so a 32-bit word computes the
  same values. A shift count is taken modulo 32, as \<open><<\<close> and \<open>>>>\<close> do.
\<close>

definition rotateLeft :: "32 word \<Rightarrow> nat \<Rightarrow> 32 word" where
  "rotateLeft x n = push_bit (n mod 32) x OR drop_bit ((32 - n) mod 32) x"

function md5_padZeros :: "nat list \<Rightarrow> nat list" where
  "md5_padZeros bytes = (if length bytes mod 64 \<noteq> 56 then md5_padZeros (bytes @ [0]) else bytes)"
  by pat_completeness auto
termination
proof (relation "measure (\<lambda>bytes. (120 - length bytes mod 64) mod 64)")
  show "wf (measure (\<lambda>bytes. (120 - length bytes mod 64) mod 64))"
    by simp
next
  fix bytes :: "nat list"
  assume a: "length bytes mod 64 \<noteq> 56"
  define r where "r = length bytes mod 64"
  have r: "r < 64" "r \<noteq> 56"
    using a by (simp_all add: r_def)
  have s: "length (bytes @ [0]) mod 64 = (if r = 63 then 0 else r + 1)"
    unfolding r_def by (simp add: mod_Suc)
  have "(120 - (if r = 63 then 0 else r + 1)) mod 64 < (120 - r) mod 64"
    using r by (cases "r < 56") (auto simp: mod_if)
  then show "(bytes @ [0], bytes) \<in> measure (\<lambda>bytes. (120 - length bytes mod 64) mod 64)"
    using s by (simp add: r_def)
qed

text \<open>
  The message bytes (\<open>charCodeAt(i) & 0xFF\<close>), the byte \<open>0x80\<close>, the zeros, and eight
  length bytes \<open>(originalLength >>> (i * 8)) & 0xFF\<close>.
\<close>

definition md5_bytes :: "jsstring \<Rightarrow> nat list" where
  "md5_bytes input =
     (let bytes = map (\<lambda>c. c mod 256) input;
          originalLength = length bytes * 8
      in md5_padZeros (bytes @ [128])
         @ map (\<lambda>i. ((originalLength mod 2 ^ 32) div 2 ^ ((i * 8) mod 32)) mod 256)
               [0, 1, 2, 3, 4, 5, 6, 7])"

definition md5_S :: "nat list" where
  "md5_S =
     [7, 12, 17, 22, 7, 12, 17, 22, 7, 12, 17, 22, 7, 12, 17, 22,
      5, 9, 14, 20, 5, 9, 14, 20, 5, 9, 14, 20, 5, 9, 14, 20,
      4, 11, 16, 23, 4, 11, 16, 23, 4, 11, 16, 23, 4, 11, 16, 23,
      6, 10, 15, 21, 6, 10, 15, 21, 6, 10, 15, 21, 6, 10, 15, 21]"

definition md5_K :: "32 word list" where
  "md5_K =
     [0xd76aa478, 0xe8c7b756, 0x242070db, 0xc1bdceee, 0xf57c0faf, 0x4787c62a,
      0xa8304613, 0xfd469501, 0x698098d8, 0x8b44f7af, 0xffff5bb1, 0x895cd7be,
      0x6b901122, 0xfd987193, 0xa679438e, 0x49b40821, 0xf61e2562, 0xc040b340,
      0x265e5a51, 0xe9b6c7aa, 0xd62f105d, 0x02441453, 0xd8a1e681, 0xe7d3fbc8,
      0x21e1cde6, 0xc33707d6, 0xf4d50d87, 0x455a14ed, 0xa9e3e905, 0xfcefa3f8,
      0x676f02d9, 0x8d2a4c8a, 0xfffa3942, 0x8771f681, 0x6d9d6122, 0xfde5380c,
      0xa4beea44, 0x4bdecfa9, 0xf6bb4b60, 0xbebfbc70, 0x289b7ec6, 0xeaa127fa,
      0xd4ef3085, 0x04881d05, 0xd9d4d039, 0xe6db99e5, 0x1fa27cf8, 0xc4ac5665,
      0xf4292244, 0x432aff97, 0xab9423a7, 0xfc93a039, 0x655b59c3, 0x8f0ccc92,
      0xffeff47d, 0x85845dd1, 0x6fa87e4f, 0xfe2ce6e0, 0xa3014314, 0x4e0811a1,
      0xf7537e82, 0xbd3af235, 0x2ad7d2bb, 0xeb86d391]"

record md5_state =
  regA :: "32 word"
  regB :: "32 word"
  regC :: "32 word"
  regD :: "32 word"

text \<open>The sixteen little-endian words of the chunk that starts at \<open>chunkStart\<close>.\<close>

definition md5_M :: "nat list \<Rightarrow> nat \<Rightarrow> 32 word list" where
  "md5_M bytes chunkStart =
     map (\<lambda>j. word_of_nat (bytes ! (chunkStart + j * 4))
               OR push_bit 8 (word_of_nat (bytes ! (chunkStart + j * 4 + 1)))
               OR push_bit 16 (word_of_nat (bytes ! (chunkStart + j * 4 + 2)))
               OR push_bit 24 (word_of_nat (bytes ! (chunkStart + j * 4 + 3))))
         [0, 1, 2, 3, 4, 5, 6, 7, 8, 9, 10, 11, 12, 13, 14, 15]"

definition md5_F :: "nat \<Rightarrow> md5_state \<Rightarrow> 32 word" where
  "md5_F i s =
     (if i < 16 then (regB s AND regC s) OR (NOT (regB s) AND regD s)
      else if i < 32 then (regD s AND regB s) OR (NOT (regD s) AND regC s)
      else if i < 48 then regB s XOR regC s XOR regD s
      else regC s XOR (regB s OR NOT (regD s)))"

definition md5_g :: "nat \<Rightarrow> nat" where
  "md5_g i =
     (if i < 16 then i
      else if i < 32 then (5 * i + 1) mod 16
      else if i < 48 then (3 * i + 5) mod 16
      else (7 * i) mod 16)"

definition md5_step :: "32 word list \<Rightarrow> nat \<Rightarrow> md5_state \<Rightarrow> md5_state" where
  "md5_step M i s =
     \<lparr> regA = regD s,
       regB = regB s + rotateLeft (md5_F i s + regA s + md5_K ! i + M ! md5_g i) (md5_S ! i),
       regC = regB s,
       regD = regC s \<rparr>"

function md5_rounds :: "32 word list \<Rightarrow> nat \<Rightarrow> md5_state \<Rightarrow> md5_state" where
  "md5_rounds M i s = (if i < 64 then md5_rounds M (i + 1) (md5_step M i s) else s)"
  by pat_completeness auto
termination
  by (relation "measure (\<lambda>(M, i, s). 64 - i)") auto

function md5_chunks :: "nat list \<Rightarrow> nat \<Rightarrow> md5_state \<Rightarrow> md5_state" where
  "md5_chunks bytes chunkStart s =
     (if chunkStart < length bytes then
        md5_chunks bytes (chunkStart + 64)
          (let r = md5_rounds (md5_M bytes chunkStart) 0 s
           in \<lparr> regA = regA s + regA r, regB = regB s + regB r,
                regC = regC s + regC r, regD = regD s + regD r \<rparr>)
      else s)"
  by pat_completeness auto
termination
  by (relation "measure (\<lambda>(bytes, chunkStart, s). length bytes - chunkStart)") auto

definition md5_toHex :: "32 word \<Rightarrow> jsstring" where
  "md5_toHex n =
     concat (map (\<lambda>i. padStart 2 48 (toStringHex (unat (drop_bit ((i * 8) mod 32) n AND 255))))
                 [0, 1, 2, 3])"

definition md5Encode :: "jsstring \<Rightarrow> jsstring" where
  "md5Encode input =
     (let s = md5_chunks (md5_bytes input) 0
                \<lparr> regA = 0x67452301, regB = 0xefcdab89, regC = 0x98badcfe, regD = 0x10325476 \<rparr>
      in md5_toHex (regA s) @ md5_toHex (regB s) @ md5_toHex (regC s) @ md5_toHex (regD s))"

section \<open>Transformation registry (\<open>transformations.ts\<close>)\<close>

datatype Reversibility = Reversible | Partial | Irreversible

datatype RiskLevel = Low | Medium | High

text \<open>
  A descriptor. The field \<open>id\<close> of the source is \<open>tId\<close> here. An absent \<open>encode\<close> or
  \<open>decode\<close> is \<open>None\<close>.
\<close>

record Transformation =
  tId :: jsstring
  name :: jsstring
  category :: jsstring
  description :: jsstring
  canEncode :: bool
  canDecode :: bool
  reversibility :: Reversibility
  riskLevel :: RiskLevel
  encode :: "transform_fn option"
  decode :: "transform_fn option"

text \<open>The catalogue, in declaration order.\<close>

definition transformations :: "library \<Rightarrow> Transformation list" where
  "transformations lib = [
    \<lparr> tId = str ''base64'',
      name = str ''Base64'',
      category = str ''Base Encoding'',
      description = str ''Standard Base64 encoding/decoding'',
      canEncode = True,
      canDecode = True,
      reversibility = Reversible,
      riskLevel = Low,
      encode = Some (\<lambda>input options. base64Encode input),
      decode = Some (\<lambda>input options. base64Decode input) \<rparr>,
    \<lparr> tId = str ''base32'',
      name = str ''Base32'',
      category = str ''Base Encoding'',
      description = str ''RFC 4648 compliant Base32 encoding'',
      canEncode = True,
      canDecode = True,
      reversibility = Reversible,
      riskLevel = Low,
      encode = Some (extern lib ''base32Encode''),
      decode = Some (\<lambda>input options. Inr (base32Decode lib input)) \<rparr>,
    \<lparr> tId = str ''base58'',
      name = str ''Base58'',
      category = str ''Base Encoding'',
      description = str ''Bitcoin-style Base58 encoding'',
      canEncode = True,
      canDecode = True,
      reversibility = Reversible,
      riskLevel = Low,
      encode = Some (extern lib ''base58Encode''),
      decode = Some (extern lib ''base58Decode'') \<rparr>,
    \<lparr> tId = str ''base85'',
      name = str ''Base85 / ASCII85'',
      category = str ''Base Encoding'',
      description = str ''ASCII85 encoding with <~ ~> delimiters'',
      canEncode = True,
      canDecode = True,
      reversibility = Reversible,
      riskLevel = Low,
      encode = Some (extern lib ''base85Encode''),
      decode = Some (extern lib ''base85Decode'') \<rparr>,
    \<lparr> tId = str ''hex'',
      name = str ''Hexadecimal'',
      category = str ''Base Encoding'',
      description = str ''Hex encoding (Base16)'',
      canEncode = True,
      canDecode = True,
      reversibility = Reversible,
      riskLevel = Low,
      encode = Some (extern lib ''hexEncode''),
      decode = Some (extern lib ''hexDecode'') \<rparr>,
    \<lparr> tId = str ''binary'',
      name = str ''Binary (8-bit)'',
      category = str ''Base Encoding'',
      description = str ''8-bit binary representation'',
      canEncode = True,
      canDecode = True,
      reversibility = Reversible,
      riskLevel = Low,
      encode = Some (extern lib ''binaryEncode''),
      decode = Some (extern lib ''binaryDecode'') \<rparr>,
    \<lparr> tId = str ''binary7'',
      name = str ''Binary (7-bit)'',
      category = str ''Base Encoding'',
      description = str ''7-bit binary (ASCII range)'',
      canEncode = True,
      canDecode = True,
      reversibility = Reversible,
      riskLevel = Low,
      encode = Some (\<lambda>input options. lib ''binaryEncode'' [JStr input, JObj [(str ''bits'', JNum 7)]]),
      decode = Some (extern lib ''binaryDecode'') \<rparr>,
    \<lparr> tId = str ''url'',
      name = str ''URL Encode'',
      category = str ''Web'',
      description = str ''Percent-encoding for URLs'',
      canEncode = True,
      canDecode = True,
      reversibility = Reversible,
      riskLevel = Low,
      encode = Some (extern lib ''urlEncode''),
      decode = Some (extern lib ''urlDecode'') \<rparr>,
    \<lparr> tId = str ''html-entity'',
      name = str ''HTML Entity'',
      category = str ''Web'',
      description = str ''HTML numeric character references'',
      canEncode = True,
      canDecode = True,
      reversibility = Reversible,
      riskLevel = Low,
      encode = Some (extern lib ''htmlEntityEncode''),
      decode = Some (extern lib ''htmlEntityDecode'') \<rparr>,
    \<lparr> tId = str ''unicode-escape'',
      name = str ''Unicode Escape'',
      category = str ''Web'',
      description = str ''JavaScript-style '' @ [92] @ str ''uXXXX escapes'',
      canEncode = True,
      canDecode = True,
      reversibility = Reversible,
      riskLevel = Low,
      encode = Some (extern lib ''unicodeEscapeEncode''),
      decode = Some (extern lib ''unicodeEscapeDecode'') \<rparr>,
    \<lparr> tId = str ''rot13'',
      name = str ''ROT13'',
      category = str ''Cipher'',
      description = str ''Caesar cipher with 13-character rotation'',
      canEncode = True,
      canDecode = True,
      reversibility = Reversible,
      riskLevel = Low,
      encode = Some (extern lib ''rot13''),
      decode = Some (extern lib ''rot13'') \<rparr>,
    \<lparr> tId = str ''rot47'',
      name = str ''ROT47'',
      category = str ''Cipher'',
      description = str ''Rotates ASCII printable characters'',
      canEncode = True,
      canDecode = True,
      reversibility = Reversible,
      riskLevel = Low,
      encode = Some (extern lib ''rot47''),
      decode = Some (extern lib ''rot47'') \<rparr>,
    \<lparr> tId = str ''caesar'',
      name = str ''Caesar Cipher'',
      category = str ''Cipher'',
      description = str ''Classic shift cipher (default shift: 3)'',
      canEncode = True,
      canDecode = True,
      reversibility = Reversible,
      riskLevel = Low,
      encode = Some (extern lib ''caesarCipher''),
      decode = Some (extern lib ''caesarDecipher'') \<rparr>,
    \<lparr> tId = str ''atbash'',
      name = str ''Atbash Cipher'',
      category = str ''Cipher'',
      description = str ''Hebrew mirror cipher (A'' @ [8218, 220, 238] @ str ''Z, B'' @ [8218, 220, 238] @ str ''Y, etc.)'',
      canEncode = True,
      canDecode = True,
      reversibility = Reversible,
      riskLevel = Low,
      encode = Some (extern lib ''atbashCipher''),
      decode = Some (extern lib ''atbashCipher'') \<rparr>,
    \<lparr> tId = str ''custom-rot'',
      name = str ''Custom ROT'',
      category = str ''Cipher'',
      description = str ''User-defined rotation shift (default: 5)'',
      canEncode = True,
      canDecode = True,
      reversibility = Reversible,
      riskLevel = Low,
      encode = Some (extern lib ''rotN''),
      decode = Some (extern lib ''rotNDecode'') \<rparr>,
    \<lparr> tId = str ''leet-light'',
      name = str ''Leetspeak (Light)'',
      category = str ''Substitution'',
      description = str ''Simple letter substitution (a'' @ [8218, 220, 237] @ str ''4, e'' @ [8218, 220, 237] @ str ''3)'',
      canEncode = True,
      canDecode = True,
      reversibility = Partial,
      riskLevel = Low,
      encode = Some (\<lambda>input options. lib ''leetspeakEncode'' [JStr input, JObj [(str ''level'', JStr (str ''light''))]]),
      decode = Some (extern lib ''leetspeakDecode'') \<rparr>,
    \<lparr> tId = str ''leet-heavy'',
      name = str ''Leetspeak (Heavy)'',
      category = str ''Substitution'',
      description = str ''Complex letter substitution (a'' @ [8218, 220, 237] @ str ''/-'' @ [92] @ str '')'',
      canEncode = True,
      canDecode = False,
      reversibility = Irreversible,
      riskLevel = Medium,
      encode = Some (\<lambda>input options. lib ''leetspeakEncode'' [JStr input, JObj [(str ''level'', JStr (str ''heavy''))]]),
      decode = None \<rparr>,
    \<lparr> tId = str ''braille'',
      name = str ''Braille Unicode'',
      category = str ''Steganography'',
      description = str ''Encode text as Braille Unicode characters'',
      canEncode = True,
      canDecode = True,
      reversibility = Reversible,
      riskLevel = Low,
      encode = Some (extern lib ''brailleEncode''),
      decode = Some (extern lib ''brailleDecode'') \<rparr>,
    \<lparr> tId = str ''homoglyph'',
      name = str ''Homoglyph'',
      category = str ''Steganography'',
      description = str ''Replace characters with similar-looking Unicode'',
      canEncode = True,
      canDecode = False,
      reversibility = Irreversible,
      riskLevel = Medium,
      encode = Some (extern lib ''homoglyphEncode''),
      decode = None \<rparr>,
    \<lparr> tId = str ''zerowidth-encode'',
      name = str ''Zero-Width Encode'',
      category = str ''Steganography'',
      description = str ''Hide secret message in zero-width characters'',
      canEncode = True,
      canDecode = False,
      reversibility = Reversible,
      riskLevel = Low,
      encode = Some (\<lambda>input options. lib ''zeroWidthEncode'' [orElse (getOption options (str ''carrier'')) (JStr (str ''hidden message: '')), JStr input]),
      decode = None \<rparr>,
    \<lparr> tId = str ''zerowidth-decode'',
      name = str ''Zero-Width Decode'',
      category = str ''Steganography'',
      description = str ''Extract hidden message from zero-width chars'',
      canEncode = False,
      canDecode = True,
      reversibility = Reversible,
      riskLevel = Low,
      encode = None,
      decode = Some (extern lib ''zeroWidthDecode'') \<rparr>,
    \<lparr> tId = str ''zerowidth-reveal'',
      name = str ''Zero-Width Reveal'',
      category = str ''Steganography'',
      description = str ''Visualize hidden zero-width characters'',
      canEncode = False,
      canDecode = True,
      reversibility = Reversible,
      riskLevel = Low,
      encode = None,
      decode = Some (extern lib ''zeroWidthReveal'') \<rparr>,
    \<lparr> tId = str ''zerowidth-remove'',
      name = str ''Zero-Width Remove'',
      category = str ''Steganography'',
      description = str ''Strip all zero-width characters'',
      canEncode = False,
      canDecode = True,
      reversibility = Irreversible,
      riskLevel = Low,
      encode = None,
      decode = Some (extern lib ''zeroWidthRemove'') \<rparr>,
    \<lparr> tId = str ''emoji-alphabet'',
      name = str ''Emoji Alphabet'',
      category = str ''Emoji'',
      description = str ''Map letters to themed emojis (A'' @ [8218, 220, 237, 63743, 252, 231, 233] @ str '')'',
      canEncode = True,
      canDecode = True,
      reversibility = Reversible,
      riskLevel = Low,
      encode = Some (extern lib ''emojiAlphabetEncode''),
      decode = Some (extern lib ''emojiAlphabetDecode'') \<rparr>,
    \<lparr> tId = str ''binary-emoji'',
      name = str ''Binary Emoji'',
      category = str ''Emoji'',
      description = str ''Binary as circles (0'' @ [8218, 220, 237, 8218, 246, 180] @ str '', 1'' @ [8218, 220, 237, 8218, 246, 8482] @ str '')'',
      canEncode = True,
      canDecode = True,
      reversibility = Reversible,
      riskLevel = Low,
      encode = Some (extern lib ''binaryEmojiEncode''),
      decode = Some (extern lib ''binaryEmojiDecode'') \<rparr>,
    \<lparr> tId = str ''base64-emoji'',
      name = str ''Base64 '' @ [8218, 220, 237] @ str '' Emoji'',
      category = str ''Emoji'',
      description = str ''Base64 characters as face emojis'',
      canEncode = True,
      canDecode = True,
      reversibility = Reversible,
      riskLevel = Low,
      encode = Some (extern lib ''base64EmojiEncode''),
      decode = Some (extern lib ''base64EmojiDecode'') \<rparr>,
    \<lparr> tId = str ''emoji-padding'',
      name = str ''Emoji Padding'',
      category = str ''Emoji'',
      description = str ''Add invisible emoji modifiers'',
      canEncode = True,
      canDecode = True,
      reversibility = Reversible,
      riskLevel = Low,
      encode = Some (extern lib ''emojiPaddingEncode''),
      decode = Some (extern lib ''emojiPaddingDecode'') \<rparr>,
    \<lparr> tId = str ''emoji-noise'',
      name = str ''Emoji Noise'',
      category = str ''Emoji'',
      description = str ''Inject random face emojis as noise'',
      canEncode = True,
      canDecode = True,
      reversibility = Reversible,
      riskLevel = Low,
      encode = Some (extern lib ''emojiNoiseEncode''),
      decode = Some (extern lib ''emojiNoiseDecode'') \<rparr>,
    \<lparr> tId = str ''emoji-skintone'',
      name = str ''Emoji Skin Tone'',
      category = str ''Emoji'',
      description = str ''Encode data in skin tone variations'',
      canEncode = True,
      canDecode = True,
      reversibility = Reversible,
      riskLevel = Low,
      encode = Some (\<lambda>input options. Inr (emojiSkinToneEncode input)),
      decode = Some (\<lambda>input options. Inr (emojiSkinToneDecode input)) \<rparr>,
    \<lparr> tId = str ''case-encode'',
      name = str ''Case Encoding'',
      category = str ''Obfuscation'',
      description = str ''Encode in letter case (upper=1, lower=0)'',
      canEncode = True,
      canDecode = True,
      reversibility = Reversible,
      riskLevel = Low,
      encode = Some (extern lib ''caseEncode''),
      decode = Some (extern lib ''caseDecode'') \<rparr>,
    \<lparr> tId = str ''whitespace'',
      name = str ''Whitespace'',
      category = str ''Obfuscation'',
      description = str ''Encode as tabs and spaces'',
      canEncode = True,
      canDecode = True,
      reversibility = Reversible,
      riskLevel = Low,
      encode = Some (extern lib ''whitespaceEncode''),
      decode = Some (extern lib ''whitespaceDecode'') \<rparr>,
    \<lparr> tId = str ''punctuation'',
      name = str ''Punctuation'',
      category = str ''Obfuscation'',
      description = str ''Encode as dots and commas'',
      canEncode = True,
      canDecode = True,
      reversibility = Reversible,
      riskLevel = Low,
      encode = Some (extern lib ''punctuationEncode''),
      decode = Some (extern lib ''punctuationDecode'') \<rparr>,
    \<lparr> tId = str ''synonym'',
      name = str ''Synonym Shuffle'',
      category = str ''Obfuscation'',
      description = str ''Replace words with random synonyms'',
      canEncode = True,
      canDecode = False,
      reversibility = Irreversible,
      riskLevel = High,
      encode = Some (extern lib ''synonymShuffle''),
      decode = None \<rparr>,
    \<lparr> tId = str ''reverse'',
      name = str ''Reverse'',
      category = str ''Text'',
      description = str ''Reverse character order'',
      canEncode = True,
      canDecode = True,
      reversibility = Reversible,
      riskLevel = Low,
      encode = Some (extern lib ''reverseString''),
      decode = Some (extern lib ''reverseString'') \<rparr>,
    \<lparr> tId = str ''uppercase'',
      name = str ''Uppercase'',
      category = str ''Text'',
      description = str ''Convert to uppercase'',
      canEncode = True,
      canDecode = False,
      reversibility = Partial,
      riskLevel = Low,
      encode = Some (extern lib ''toUpperCase''),
      decode = None \<rparr>,
    \<lparr> tId = str ''lowercase'',
      name = str ''Lowercase'',
      category = str ''Text'',
      description = str ''Convert to lowercase'',
      canEncode = True,
      canDecode = False,
      reversibility = Partial,
      riskLevel = Low,
      encode = Some (extern lib ''toLowerCase''),
      decode = None \<rparr>,
    \<lparr> tId = str ''hash'',
      name = str ''Hash (Demo)'',
      category = str ''Hash'',
      description = str ''One-way hash function'',
      canEncode = True,
      canDecode = False,
      reversibility = Irreversible,
      riskLevel = High,
      encode = Some (extern lib ''md5Hash''),
      decode = None \<rparr>,
    \<lparr> tId = str ''vigenere'',
      name = str ''Vigen'' @ [8730, 174] @ str ''re Cipher'',
      category = str ''Cipher'',
      description = str ''Polyalphabetic cipher with keyword (default: SECRET)'',
      canEncode = True,
      canDecode = True,
      reversibility = Reversible,
      riskLevel = Low,
      encode = Some (extern lib ''vigenereEncode''),
      decode = Some (extern lib ''vigenereDecode'') \<rparr>,
    \<lparr> tId = str ''xor'',
      name = str ''XOR Encryption'',
      category = str ''Cipher'',
      description = str ''Symmetric XOR cipher with key (output as hex)'',
      canEncode = True,
      canDecode = True,
      reversibility = Reversible,
      riskLevel = Low,
      encode = Some (extern lib ''xorEncode''),
      decode = Some (extern lib ''xorDecode'') \<rparr>,
    \<lparr> tId = str ''aes'',
      name = str ''AES Encryption'',
      category = str ''Cipher'',
      description = str ''AES-256-GCM encryption (simplified demo)'',
      canEncode = True,
      canDecode = True,
      reversibility = Reversible,
      riskLevel = Medium,
      encode = Some (extern lib ''aesEncodeSync''),
      decode = Some (extern lib ''aesDecodeSync'') \<rparr>,
    \<lparr> tId = str ''morse'',
      name = str ''Morse Code'',
      category = str ''Cipher'',
      description = str ''International Morse code encoding'',
      canEncode = True,
      canDecode = True,
      reversibility = Reversible,
      riskLevel = Low,
      encode = Some (extern lib ''morseEncode''),
      decode = Some (extern lib ''morseDecode'') \<rparr>,
    \<lparr> tId = str ''bacon'',
      name = str ''Bacon Cipher'',
      category = str ''Cipher'',
      description = str ''Baconian cipher using A/B (steganographic)'',
      canEncode = True,
      canDecode = True,
      reversibility = Reversible,
      riskLevel = Low,
      encode = Some (extern lib ''baconEncode''),
      decode = Some (extern lib ''baconDecode'') \<rparr>,
    \<lparr> tId = str ''railfence'',
      name = str ''Rail Fence Cipher'',
      category = str ''Cipher'',
      description = str ''Transposition cipher with 3 rails'',
      canEncode = True,
      canDecode = True,
      reversibility = Reversible,
      riskLevel = Low,
      encode = Some (extern lib ''railFenceEncode''),
      decode = Some (extern lib ''railFenceDecode'') \<rparr>,
    \<lparr> tId = str ''affine'',
      name = str ''Affine Cipher'',
      category = str ''Cipher'',
      description = str ''Mathematical cipher (ax + b mod 26)'',
      canEncode = True,
      canDecode = True,
      reversibility = Reversible,
      riskLevel = Low,
      encode = Some (extern lib ''affineEncode''),
      decode = Some (extern lib ''affineDecode'') \<rparr>,
    \<lparr> tId = str ''polybius'',
      name = str ''Polybius Square'',
      category = str ''Cipher'',
      description = str ''5x5 grid encoding (row/col coordinates)'',
      canEncode = True,
      canDecode = True,
      reversibility = Reversible,
      riskLevel = Low,
      encode = Some (\<lambda>input options. Inr (polybiusEncode lib input)),
      decode = Some (\<lambda>input options. Inr (polybiusDecode input)) \<rparr>,
    \<lparr> tId = str ''sha256'',
      name = str ''SHA-256'',
      category = str ''Hash'',
      description = str ''SHA-256 cryptographic hash (256-bit)'',
      canEncode = True,
      canDecode = False,
      reversibility = Irreversible,
      riskLevel = High,
      encode = Some (\<lambda>input options. Inr (sha256Encode input)),
      decode = None \<rparr>,
    \<lparr> tId = str ''sha512'',
      name = str ''SHA-512'',
      category = str ''Hash'',
      description = str ''SHA-512 cryptographic hash (512-bit)'',
      canEncode = True,
      canDecode = False,
      reversibility = Irreversible,
      riskLevel = High,
      encode = Some (extern lib ''sha512Encode''),
      decode = None \<rparr>,
    \<lparr> tId = str ''md5'',
      name = str ''MD5'',
      category = str ''Hash'',
      description = str ''MD5 hash (128-bit, legacy)'',
      canEncode = True,
      canDecode = False,
      reversibility = Irreversible,
      riskLevel = High,
      encode = Some (\<lambda>input options. Inr (md5Encode input)),
      decode = None \<rparr>,
    \<lparr> tId = str ''frequency'',
      name = str ''Frequency Analysis'',
      category = str ''Analysis'',
      description = str ''Character frequency analysis for cryptanalysis'',
      canEncode = True,
      canDecode = False,
      reversibility = Irreversible,
      riskLevel = Low,
      encode = Some (extern lib ''frequencyAnalysis''),
      decode = None \<rparr>,
    \<lparr> tId = str ''bruteforce-caesar'',
      name = str ''Brute Force Caesar'',
      category = str ''Analysis'',
      description = str ''Try all 25 Caesar/ROT shift values'',
      canEncode = False,
      canDecode = True,
      reversibility = Irreversible,
      riskLevel = Low,
      encode = None,
      decode = Some (extern lib ''bruteForceCaesar'') \<rparr>,
    \<lparr> tId = str ''char-stats'',
      name = str ''Character Statistics'',
      category = str ''Analysis'',
      description = str ''Count characters, words, lines, bytes'',
      canEncode = True,
      canDecode = False,
      reversibility = Irreversible,
      riskLevel = Low,
      encode = Some (extern lib ''characterStats''),
      decode = None \<rparr>
  ]"

text \<open>\<open>transformations.find(t => t.id === id)\<close>\<close>

definition findById :: "library \<Rightarrow> jsstring \<Rightarrow> Transformation option" where
  "findById lib i = find (\<lambda>t. tId t = i) (transformations lib)"

section \<open>Pipeline engine (\<open>pipeline.ts\<close>)\<close>

datatype Mode = Encode | Decode

text \<open>The text of \<open>step.mode\<close> inside a template string.\<close>

fun modeText :: "Mode \<Rightarrow> jsstring" where
  "modeText Encode = str ''encode''"
| "modeText Decode = str ''decode''"

text \<open>The field \<open>id\<close> of a step is \<open>sId\<close> here.\<close>

record PipelineStep =
  sId :: jsstring
  transformationId :: jsstring
  mode :: Mode
  options :: "options option"

record PipelineResult =
  stepId :: jsstring
  input :: jsstring
  output' :: jsstring
  success :: bool
  error :: "jsstring option"

datatype WarningType = IrreversibleWarning | DataLoss | ChainRisk

text \<open>The field \<open>type\<close> of a warning is \<open>wtype\<close> here.\<close>

record PipelineWarning =
  wtype :: WarningType
  message :: jsstring
  stepIds :: "jsstring list"

record PipelineOutput =
  results :: "PipelineResult list"
  finalOutput :: jsstring

definition getTransformation :: "library \<Rightarrow> jsstring \<Rightarrow> Transformation option" where
  "getTransformation lib i = find (\<lambda>t. tId t = i) (transformations lib)"

text \<open>
  \<open>error instanceof Error ? error.message : 'Unknown error'\<close>. The message of an error
  raised by the platform is the engine's own text.
\<close>

fun errorMessage :: "js_error \<Rightarrow> jsstring" where
  "errorMessage (Error m) = m"
| "errorMessage URIError = str ''URI malformed''"
| "errorMessage InvalidCharacterError = str ''Invalid character''"
| "errorMessage (NonError v) = str ''Unknown error''"

text \<open>The body of the \<open>try\<close> block up to the call: the function is picked and applied.\<close>

definition applyStep :: "Transformation \<Rightarrow> PipelineStep \<Rightarrow> jsstring \<Rightarrow> js_error + jsstring" where
  "applyStep transformation step currentValue =
     (case (if mode step = Encode then encode transformation else decode transformation) of
        None \<Rightarrow> Inl (Error (modeText (mode step) @ str '' not supported for '' @ name transformation))
      | Some fn \<Rightarrow> fn currentValue (options step))"

text \<open>The \<open>for\<close> loop of \<open>executePipeline\<close>, with \<open>results\<close> and \<open>currentValue\<close> as state.\<close>

fun executePipeline_loop ::
  "library \<Rightarrow> PipelineResult list \<Rightarrow> jsstring \<Rightarrow> PipelineStep list \<Rightarrow> PipelineOutput" where
  "executePipeline_loop lib rs currentValue [] = \<lparr> results = rs, finalOutput = currentValue \<rparr>"
| "executePipeline_loop lib rs currentValue (step # steps) =
     (case getTransformation lib (transformationId step) of
        None \<Rightarrow>
          executePipeline_loop lib
            (rs @ [\<lparr> stepId = sId step, input = currentValue, output' = currentValue,
                     success = False, error = Some (str ''Transformation not found'') \<rparr>])
            currentValue steps
      | Some transformation \<Rightarrow>
          (case applyStep transformation step currentValue of
             Inr out \<Rightarrow>
               executePipeline_loop lib
                 (rs @ [\<lparr> stepId = sId step, input = currentValue, output' = out,
                          success = True, error = None \<rparr>])
                 out steps
           | Inl e \<Rightarrow>
               executePipeline_loop lib
                 (rs @ [\<lparr> stepId = sId step, input = currentValue, output' = currentValue,
                          success = False, error = Some (errorMessage e) \<rparr>])
                 currentValue steps))"

definition executePipeline :: "library \<Rightarrow> jsstring \<Rightarrow> PipelineStep list \<Rightarrow> PipelineOutput" where
  "executePipeline lib inp steps = executePipeline_loop lib [] inp steps"

subsection \<open>Risk analysis\<close>

definition hashTransformIds :: "jsstring list" where
  "hashTransformIds = [str ''hash'', str ''sha256'', str ''sha512'', str ''md5'']"

definition analysisTransformIds :: "jsstring list" where
  "analysisTransformIds = [str ''frequency'', str ''char-stats'', str ''qrcode'']"

record analysis_lists =
  irreversibleSteps :: "jsstring list"
  partialSteps :: "jsstring list"
  hashSteps :: "jsstring list"
  analysisSteps :: "jsstring list"

text \<open>One turn of the first loop of \<open>analyzePipeline\<close>.\<close>

definition classifyStep :: "library \<Rightarrow> analysis_lists \<Rightarrow> PipelineStep \<Rightarrow> analysis_lists" where
  "classifyStep lib acc step =
     (case getTransformation lib (transformationId step) of
        None \<Rightarrow> acc
      | Some transformation \<Rightarrow>
          acc \<lparr> irreversibleSteps :=
                  (if reversibility transformation = Irreversible
                   then irreversibleSteps acc @ [sId step] else irreversibleSteps acc),
                partialSteps :=
                  (if reversibility transformation \<noteq> Irreversible
                      \<and> reversibility transformation = Partial
                   then partialSteps acc @ [sId step] else partialSteps acc),
                hashSteps :=
                  (if tId transformation \<in> set hashTransformIds
                   then hashSteps acc @ [sId step] else hashSteps acc),
                analysisSteps :=
                  (if tId transformation \<in> set analysisTransformIds
                   then analysisSteps acc @ [sId step] else analysisSteps acc) \<rparr>)"

text \<open>\<open>getTransformation(s.transformationId)?.id || ''\<close>\<close>

definition idOrEmpty :: "library \<Rightarrow> PipelineStep \<Rightarrow> jsstring" where
  "idOrEmpty lib s =
     (case getTransformation lib (transformationId s) of
        None \<Rightarrow> []
      | Some t \<Rightarrow> (if tId t = [] then [] else tId t))"

definition hasHash :: "library \<Rightarrow> PipelineStep list \<Rightarrow> bool" where
  "hasHash lib steps = list_ex (\<lambda>s. idOrEmpty lib s \<in> set hashTransformIds) steps"

definition hasEncoding :: "library \<Rightarrow> PipelineStep list \<Rightarrow> bool" where
  "hasEncoding lib steps =
     list_ex (\<lambda>s. case getTransformation lib (transformationId s) of
                     None \<Rightarrow> False
                   | Some t \<Rightarrow> category t = str ''Base Encoding'' \<and> mode s = Encode) steps"

text \<open>The six message literals of \<open>analyzePipeline\<close>, each starting with its emoji.\<close>

definition irreversibleMessage :: jsstring where
  "irreversibleMessage =
     [9888, 65039] @ str '' IRREVERSIBLE: This pipeline contains one-way transformations (hashes/analysis). Original data CANNOT be recovered!''"

definition partialLossMessage :: jsstring where
  "partialLossMessage =
     [9889] @ str '' PARTIAL LOSS: Some transformations may lose information (e.g., case, formatting, special characters).''"

definition hashDetectedMessage :: jsstring where
  "hashDetectedMessage =
     [55357, 56594] @ str '' HASH DETECTED: Hash functions (MD5, SHA-256, SHA-512) produce fixed-length output. This is ONE-WAY encryption - you cannot decrypt the result!''"

definition analysisModeMessage :: jsstring where
  "analysisModeMessage =
     [55357, 56522] @ str '' ANALYSIS MODE: Analysis tools show statistics/patterns, not encoded data. Output is informational only.''"

definition chainRiskMessage :: jsstring where
  "chainRiskMessage =
     [9888, 65039] @ str '' CHAIN RISK: Encoding after hashing may produce unexpected results. Hash output is already hexadecimal.''"

definition multipleIrreversibleMessage :: jsstring where
  "multipleIrreversibleMessage =
     [55357, 56599] @ str '' MULTIPLE IRREVERSIBLE: Multiple one-way transformations detected. Each step further destroys the original data.''"

definition analyzePipeline :: "library \<Rightarrow> PipelineStep list \<Rightarrow> PipelineWarning list" where
  "analyzePipeline lib steps =
     (let acc = foldl (classifyStep lib)
                  \<lparr> irreversibleSteps = [], partialSteps = [], hashSteps = [], analysisSteps = [] \<rparr>
                  steps
      in (if length (irreversibleSteps acc) > 0 then
            [\<lparr> wtype = IrreversibleWarning,
               message = irreversibleMessage,
               stepIds = irreversibleSteps acc \<rparr>]
          else [])
       @ (if length (partialSteps acc) > 0 then
            [\<lparr> wtype = DataLoss,
               message = partialLossMessage,
               stepIds = partialSteps acc \<rparr>]
          else [])
       @ (if length (hashSteps acc) > 0 then
            [\<lparr> wtype = IrreversibleWarning,
               message = hashDetectedMessage,
               stepIds = hashSteps acc \<rparr>]
          else [])
       @ (if length (analysisSteps acc) > 0 then
            [\<lparr> wtype = IrreversibleWarning,
               message = analysisModeMessage,
               stepIds = analysisSteps acc \<rparr>]
          else [])
       @ (if hasHash lib steps \<and> hasEncoding lib steps then
            [\<lparr> wtype = ChainRisk,
               message = chainRiskMessage,
               stepIds = map sId steps \<rparr>]
          else [])
       @ (if length (irreversibleSteps acc) > 1 then
            [\<lparr> wtype = ChainRisk,
               message = multipleIrreversibleMessage,
               stepIds = irreversibleSteps acc \<rparr>]
          else []))"

section \<open>Detection engine (\<open>transformations.ts\<close>)\<close>

definition startsWith :: "jsstring \<Rightarrow> jsstring \<Rightarrow> bool" where
  "startsWith s p = (take (length p) s = p)"

definition endsWith :: "jsstring \<Rightarrow> jsstring \<Rightarrow> bool" where
  "endsWith s p = (length p \<le> length s \<and> drop (length s - length p) s = p)"

text \<open>The patterns of the heuristics, each under the name of what it recognises.\<close>

definition jwtChars :: regex where
  "jwtChars = Cls (reAlpha @ reDigit @ chars ''_-'')"

text \<open>\<open>/^[A-Za-z0-9_-]+\.[A-Za-z0-9_-]+\.[A-Za-z0-9_-]*$/\<close>\<close>

definition jwtPattern :: regex where
  "jwtPattern =
     Cat (Plus jwtChars) (Cat (Lits (str ''.'')) (Cat (Plus jwtChars)
       (Cat (Lits (str ''.'')) (Star jwtChars))))"

text \<open>\<open>/^[A-Za-z0-9+/]+=*$/\<close>\<close>

definition base64Pattern :: regex where
  "base64Pattern = Cat (Plus (Cls (reAlpha @ reDigit @ chars ''+/''))) (Star (Lits (str ''='')))"

text \<open>\<open>/^[A-Z2-7]+=*$/i\<close>; with the flag \<open>i\<close> the class also holds \<open>a\<close> to \<open>z\<close>.\<close>

definition base32Pattern :: regex where
  "base32Pattern = Cat (Plus (Cls (reAlpha @ [(50, 55)]))) (Star (Lits (str ''='')))"

text \<open>\<open>/^[123456789ABCDEFGHJKLMNPQRSTUVWXYZabcdefghijkmnopqrstuvwxyz]+$/\<close>\<close>

definition base58Pattern :: regex where
  "base58Pattern = Plus (Cls (chars ''123456789ABCDEFGHJKLMNPQRSTUVWXYZabcdefghijkmnopqrstuvwxyz''))"

text \<open>\<open>/^[0-9a-fA-F]+$/\<close>\<close>

definition hexPattern :: regex where
  "hexPattern = Plus (Cls reHex)"

text \<open>\<open>/^[01\s]+$/\<close>\<close>

definition binaryPattern :: regex where
  "binaryPattern = Plus (Cls (chars ''01'' @ reSpace))"

text \<open>\<open>/%[0-9A-Fa-f]{2}/\<close>\<close>

definition urlPattern :: regex where
  "urlPattern = Cat (Lits (str ''%'')) (Cat (Cls reHex) (Cls reHex))"

text \<open>\<open>/&#\d+;|&#x[0-9a-fA-F]+;|&\w+;/\<close>\<close>

definition htmlEntityPattern :: regex where
  "htmlEntityPattern =
     Alt (Cat (Lits (str ''&#'')) (Cat (Plus (Cls reDigit)) (Lits (str '';''))))
       (Alt (Cat (Lits (str ''&#x'')) (Cat (Plus (Cls reHex)) (Lits (str '';''))))
            (Cat (Lits (str ''&'')) (Cat (Plus (Cls reWord)) (Lits (str '';'')))))"

text \<open>\<open>/\\u[0-9a-fA-F]{4}/\<close>\<close>

definition unicodeEscapePattern :: regex where
  "unicodeEscapePattern =
     Cat (Lits [92, 117]) (Cat (Cls reHex) (Cat (Cls reHex) (Cat (Cls reHex) (Cls reHex))))"

text \<open>The Braille block U+2800 to U+28FF, as a class.\<close>

definition braillePattern :: regex where
  "braillePattern = Cls [(10240, 10495)]"

text \<open>The zero-width characters U+200B, U+200C and U+200D, as a class.\<close>

definition zeroWidthPattern :: regex where
  "zeroWidthPattern = Cls [(8203, 8203), (8204, 8204), (8205, 8205)]"

text \<open>The six characters of the binary emoji class, between \<open>^[\<close> and \<open>]+$\<close>.\<close>

definition binaryEmojiPattern :: regex where
  "binaryEmojiPattern =
     Plus (Cls [(8218, 8218), (246, 246), (180, 180), (8218, 8218), (246, 246), (8482, 8482)])"

text \<open>\<open>/^[.,]+$/\<close>\<close>

definition punctuationPattern :: regex where
  "punctuationPattern = Plus (Cls (chars ''.,''))"

text \<open>\<open>/^[\t ]+\n?$/\<close>\<close>

definition whitespacePattern :: regex where
  "whitespacePattern = Cat (Plus (Cls [(9, 9), (32, 32)])) (Opt (Cls [(10, 10)]))"

text \<open>\<open>/^[.\-\s/]+$/\<close>\<close>

definition morsePattern :: regex where
  "morsePattern = Plus (Cls (chars ''.-'' @ reSpace @ chars ''/''))"

text \<open>\<open>/^[AB\s]+$/i\<close>\<close>

definition baconPattern :: regex where
  "baconPattern = Plus (Cls (chars ''ABab'' @ reSpace))"

text \<open>\<open>/^[\d\s]+$/\<close> and \<open>/[1-5]{2}/\<close>\<close>

definition polybiusPattern :: regex where
  "polybiusPattern = Plus (Cls (reDigit @ reSpace))"

definition polybiusPairPattern :: regex where
  "polybiusPairPattern = Cat (Cls [(49, 53)]) (Cls [(49, 53)])"

text \<open>\<open>/^[A-Za-z\s]+$/\<close>\<close>

definition lettersPattern :: regex where
  "lettersPattern = Plus (Cls (reAlpha @ reSpace))"

text \<open>The twenty-six literals of the emoji alphabet heuristic.\<close>

definition emojiAlphabetChars :: "jsstring list" where
  "emojiAlphabetChars =
     [[63743, 252, 231, 233], [63743, 252, 231, 229], [63743, 252, 234, 177],
      [63743, 252, 234, 239], [63743, 252, 182, 214], [63743, 252, 234, 8719],
      [63743, 252, 231, 225], [63743, 252, 232, 8224], [63743, 252, 231, 182],
      [63743, 252, 201, 232], [63743, 252, 238, 235], [63743, 252, 182, 197],
      [63743, 252, 229, 244], [63743, 252, 236, 8734], [63743, 252, 234, 244],
      [63743, 252, 231, 239], [63743, 252, 235, 8719], [63743, 252, 229, 224],
      [8218, 8800, 234], [63743, 252, 229, 8804], [8218, 242, 199, 212, 8719, 232],
      [63743, 252, 233, 170], [63743, 252, 234, 227], [8218, 250, 241, 212, 8719, 232],
      [63743, 252, 237, 245], [8218, 246, 176]]"

definition skinTones :: "jsstring list" where
  "skinTones =
     [[63743, 252, 232, 170], [63743, 252, 232, 186], [63743, 252, 232, 937], [63743, 252, 232, 230], [63743, 252, 232, 248]]"

text \<open>\<open>detected.filter(Boolean)\<close>: what \<open>find\<close> did not find is dropped.\<close>

fun filterBoolean :: "'a option list \<Rightarrow> 'a list" where
  "filterBoolean [] = []"
| "filterBoolean (None # xs) = filterBoolean xs"
| "filterBoolean (Some x # xs) = x # filterBoolean xs"

text \<open>\<open>if (cond) detected.push(transformations.find(t => t.id === id)!)\<close>\<close>

definition pushIf :: "library \<Rightarrow> bool \<Rightarrow> jsstring \<Rightarrow> Transformation option list" where
  "pushIf lib cond i = (if cond then [findById lib i] else [])"

definition detectPossibleEncodings :: "library \<Rightarrow> jsstring \<Rightarrow> Transformation list" where
  "detectPossibleEncodings lib inp =
     filterBoolean
       (pushIf lib (matches jwtPattern inp) (str ''jwt-decode'')
        @ pushIf lib (matches base64Pattern inp \<and> length inp mod 4 = 0) (str ''base64'')
        @ pushIf lib (matches base32Pattern inp) (str ''base32'')
        @ pushIf lib (matches base58Pattern inp) (str ''base58'')
        @ pushIf lib (startsWith inp (str ''<~'') \<and> endsWith inp (str ''~>'')) (str ''base85'')
        @ pushIf lib (matches hexPattern inp \<and> length inp mod 2 = 0) (str ''hex'')
        @ pushIf lib (matches binaryPattern inp) (str ''binary'')
        @ pushIf lib (search urlPattern inp) (str ''url'')
        @ pushIf lib (search htmlEntityPattern inp) (str ''html-entity'')
        @ pushIf lib (search unicodeEscapePattern inp) (str ''unicode-escape'')
        @ pushIf lib (search braillePattern inp) (str ''braille'')
        @ pushIf lib (search zeroWidthPattern inp) (str ''zerowidth-decode'')
        @ pushIf lib (search zeroWidthPattern inp) (str ''zerowidth-reveal'')
        @ pushIf lib (matches binaryEmojiPattern inp) (str ''binary-emoji'')
        @ pushIf lib (list_ex (\<lambda>emoji. includesStr inp emoji) emojiAlphabetChars)
            (str ''emoji-alphabet'')
        @ pushIf lib (matches punctuationPattern inp \<and> length inp \<ge> 8) (str ''punctuation'')
        @ pushIf lib (matches whitespacePattern inp \<and> length inp \<ge> 8) (str ''whitespace'')
        @ pushIf lib (includesStr inp baseEmoji \<and> list_ex (\<lambda>tone. includesStr inp tone) skinTones)
            (str ''emoji-skintone'')
        @ pushIf lib (matches morsePattern inp \<and> includesStr inp (str ''.'')
                      \<and> (includesStr inp (str ''-'') \<or> includesStr inp (str ''/''))) (str ''morse'')
        @ pushIf lib (matches baconPattern inp
                      \<and> length (filter (\<lambda>c. \<not> inClass reSpace c) inp) mod 5 = 0) (str ''bacon'')
        @ pushIf lib (matches polybiusPattern inp \<and> search polybiusPairPattern inp)
            (str ''polybius'')
        @ pushIf lib (matches lettersPattern inp \<and> length inp \<ge> 10 \<and> length inp \<le> 500)
            (str ''bruteforce-caesar''))"

text \<open>
  The \<open>while\<close> loop of \<open>detectMultiLayer\<close>, with \<open>layers\<close>, \<open>current\<close> and \<open>depth\<close> as
  state; every \<open>break\<close> returns the state as it stands.
\<close>

function detectMultiLayer_loop ::
  "library \<Rightarrow> nat \<Rightarrow> jsstring list \<Rightarrow> jsstring \<Rightarrow> nat \<Rightarrow> jsstring list \<times> jsstring" where
  "detectMultiLayer_loop lib maxDepth layers current depth =
     (if depth < maxDepth then
        (case detectPossibleEncodings lib current of
           [] \<Rightarrow> (layers, current)
         | firstMatch # others \<Rightarrow>
             (case decode firstMatch of
                None \<Rightarrow> (layers, current)
              | Some fn \<Rightarrow>
                  (case fn current None of
                     Inl e \<Rightarrow> (layers, current)
                   | Inr decoded \<Rightarrow>
                       if decoded = current \<or> length decoded = 0 then (layers, current)
                       else detectMultiLayer_loop lib maxDepth
                              (layers @ [str ''Layer '' @ toStringDec (depth + 1) @ str '': ''
                                         @ name firstMatch])
                              decoded (depth + 1))))
      else (layers, current))"
  by pat_completeness auto
termination
  by (relation "measure (\<lambda>(lib, maxDepth, layers, current, depth). maxDepth - depth)") auto

definition detectMultiLayer :: "library \<Rightarrow> jsstring \<Rightarrow> nat \<Rightarrow> jsstring list" where
  "detectMultiLayer lib inp maxDepth =
     (case detectMultiLayer_loop lib maxDepth [] inp 0 of
        (layers, current) \<Rightarrow>
          (if length layers > 0 then
             layers @ [str ''Final: '' @ take 100 current
                       @ (if length current > 100 then str ''...'' else [])]
           else layers))"

text \<open>A library whose every function throws: the \<open>lib\<close> of the closed examples.\<close>

definition noLibrary :: library where
  "noLibrary f args = Inl (Error (str ''not embedded''))"

section \<open>Notions used in the proofs\<close>

text \<open>
  The value the loop of \<open>executePipeline\<close> holds after a list of results: it moves to the
  output of a result that succeeded and stays at a result that failed.
\<close>

definition advance :: "jsstring \<Rightarrow> PipelineResult list \<Rightarrow> jsstring" where
  "advance cur rs = foldl (\<lambda>v r. if success r then output' r else v) cur rs"

text \<open>The result recorded for a step whose transformation is not in the catalogue.\<close>

definition notFound :: "jsstring \<Rightarrow> jsstring \<Rightarrow> PipelineResult" where
  "notFound i cur = \<lparr> stepId = i, input = cur, output' = cur, success = False,
                       error = Some (str ''Transformation not found'') \<rparr>"

text \<open>The result recorded for a step whose transformation is \<open>t\<close>: what \<open>applyStep\<close> gives.\<close>

definition resolved :: "Transformation \<Rightarrow> PipelineStep \<Rightarrow> jsstring \<Rightarrow> PipelineResult" where
  "resolved t step cur =
     (case applyStep t step cur of
        Inr out \<Rightarrow> \<lparr> stepId = sId step, input = cur, output' = out, success = True,
                     error = None \<rparr>
      | Inl e \<Rightarrow> \<lparr> stepId = sId step, input = cur, output' = cur, success = False,
                   error = Some (errorMessage e) \<rparr>)"

text \<open>The result one turn of the loop pushes.\<close>

definition recorded :: "library \<Rightarrow> PipelineStep \<Rightarrow> jsstring \<Rightarrow> PipelineResult" where
  "recorded lib step cur =
     (case getTransformation lib (transformationId step) of
        None \<Rightarrow> notFound (sId step) cur
      | Some t \<Rightarrow> resolved t step cur)"

section \<open>Properties\<close>

subsection \<open>The catalogue\<close>

lemma registry_ids:
  "map tId (transformations lib) = map str
     [''base64'', ''base32'', ''base58'', ''base85'', ''hex'', ''binary'', ''binary7'', ''url'',
      ''html-entity'', ''unicode-escape'', ''rot13'', ''rot47'', ''caesar'', ''atbash'',
      ''custom-rot'', ''leet-light'', ''leet-heavy'', ''braille'', ''homoglyph'',
      ''zerowidth-encode'', ''zerowidth-decode'', ''zerowidth-reveal'', ''zerowidth-remove'',
      ''emoji-alphabet'', ''binary-emoji'', ''base64-emoji'', ''emoji-padding'', ''emoji-noise'',
      ''emoji-skintone'', ''case-encode'', ''whitespace'', ''punctuation'', ''synonym'',
      ''reverse'', ''uppercase'', ''lowercase'', ''hash'', ''vigenere'', ''xor'', ''aes'',
      ''morse'', ''bacon'', ''railfence'', ''affine'', ''polybius'', ''sha256'', ''sha512'',
      ''md5'', ''frequency'', ''bruteforce-caesar'', ''char-stats'']"
  by (simp add: transformations_def)

lemma find_tId: "find (\<lambda>t. tId t = i) ts = Some t \<Longrightarrow> tId t = i \<and> t \<in> set ts"
  by (induction ts) (auto split: if_splits)

lemma find_None_ids: "find (\<lambda>t. tId t = i) ts = None \<longleftrightarrow> i \<notin> set (map tId ts)"
  by (induction ts) auto

lemma jwt_absent: "findById lib (str ''jwt-decode'') = None"
  unfolding findById_def find_None_ids registry_ids by (simp add: str_def)

lemma unknown_absent: "getTransformation lib (str ''unknown-id'') = None"
  unfolding getTransformation_def find_None_ids registry_ids by (simp add: str_def)

lemma registry_member: "i \<in> set (map tId (transformations lib)) \<Longrightarrow> \<exists>t. getTransformation lib i = Some t \<and> tId t = i \<and> t \<in> set (transformations lib)"
proof -
  assume "i \<in> set (map tId (transformations lib))"
  then have "getTransformation lib i \<noteq> None"
    unfolding getTransformation_def find_None_ids by simp
  then obtain t where t: "getTransformation lib i = Some t"
    by auto
  then show ?thesis
    using find_tId [of i "transformations lib" t] by (simp add: getTransformation_def)
qed

lemma sha256_entry:
  "getTransformation lib (str ''sha256'') =
     Some \<lparr> tId = str ''sha256'', name = str ''SHA-256'', category = str ''Hash'',
            description = str ''SHA-256 cryptographic hash (256-bit)'',
            canEncode = True, canDecode = False, reversibility = Irreversible, riskLevel = High,
            encode = Some (\<lambda>input options. Inr (sha256Encode input)), decode = None \<rparr>"
  by (simp add: getTransformation_def transformations_def str_def)

text \<open>
  C9. Every descriptor of the catalogue keeps the capability invariant: a descriptor that
  cannot encode has no \<open>encode\<close> operation, and one that cannot decode has no \<open>decode\<close>
  operation.
\<close>

theorem capability_invariant:
  "\<forall>t \<in> set (transformations lib).
     (\<not> canEncode t \<longrightarrow> encode t = None) \<and> (\<not> canDecode t \<longrightarrow> decode t = None)"
  by (simp add: transformations_def)

text \<open>
  The invariant at two descriptors: \<open>zerowidth-decode\<close> (index 20) cannot encode and
  \<open>sha256\<close> (index 45) cannot decode.
\<close>

theorem capability_invariant_witness:
  "\<not> canEncode (transformations noLibrary ! 20) \<and> encode (transformations noLibrary ! 20) = None
   \<and> \<not> canDecode (transformations noLibrary ! 45) \<and> decode (transformations noLibrary ! 45) = None"
proof -
  have len: "length (transformations noLibrary) = 51"
    using arg_cong [OF registry_ids [of noLibrary], of length] by simp
  have m20: "transformations noLibrary ! 20 \<in> set (transformations noLibrary)"
    and m45: "transformations noLibrary ! 45 \<in> set (transformations noLibrary)"
    using len by simp_all
  have c20: "\<not> canEncode (transformations noLibrary ! 20)"
    by (simp add: transformations_def)
  have c45: "\<not> canDecode (transformations noLibrary ! 45)"
    by (simp add: transformations_def)
  show ?thesis
    using capability_invariant [of noLibrary, rule_format, OF m20]
      capability_invariant [of noLibrary, rule_format, OF m45] c20 c45
    by blast
qed

subsection \<open>The pipeline engine\<close>

text \<open>
  C8. On the empty step list \<open>executePipeline\<close> returns no result and the input as the
  final output, for every input; in particular for the input \<open>SECRET\<close>.
\<close>

theorem executePipeline_no_steps:
  "executePipeline lib inp [] = \<lparr> results = [], finalOutput = inp \<rparr>
   \<and> executePipeline lib (str ''SECRET'') [] = \<lparr> results = [], finalOutput = str ''SECRET'' \<rparr>"
  by (simp add: executePipeline_def)

lemma base64Encode_hi: "base64Encode (str ''hi'') = Inr (str ''aGk='')"
  by (simp add: base64Encode_def encodeURIComponent_def isLoneSurrogate_def uriUnescaped_def
      isLeadSurrogate_def isTrailSurrogate_def
      isAlnum_def isUpper_def isLower_def isDigit_def btoa_def base64Alphabet_def str_def)

lemma base64_entry:
  "getTransformation lib (str ''base64'') =
     Some \<lparr> tId = str ''base64'', name = str ''Base64'', category = str ''Base Encoding'',
            description = str ''Standard Base64 encoding/decoding'',
            canEncode = True, canDecode = True, reversibility = Reversible, riskLevel = Low,
            encode = Some (\<lambda>input options. base64Encode input),
            decode = Some (\<lambda>input options. base64Decode input) \<rparr>"
  by (simp add: getTransformation_def transformations_def str_def)

text \<open>One turn of the loop pushes one result and moves the current value on success only.\<close>

lemma executePipeline_loop_step:
  "executePipeline_loop lib rs cur (s # ss)
     = executePipeline_loop lib (rs @ [recorded lib s cur]) (advance cur [recorded lib s cur]) ss"
  by (simp add: recorded_def resolved_def notFound_def advance_def split: option.split sum.split)

lemma recorded_fields:
  "stepId (recorded lib s cur) = sId s" "input (recorded lib s cur) = cur"
  by (simp_all add: recorded_def resolved_def notFound_def split: option.split sum.split)

lemma executePipeline_loop_inv:
  "\<exists>new. results (executePipeline_loop lib rs cur steps) = rs @ new
     \<and> length new = length steps
     \<and> finalOutput (executePipeline_loop lib rs cur steps) = advance cur new
     \<and> (\<forall>k<length steps. new ! k = recorded lib (steps ! k) (advance cur (take k new)))"
proof (induction steps arbitrary: rs cur)
  case Nil
  then show ?case by (simp add: advance_def)
next
  case (Cons s ss)
  define r where "r = recorded lib s cur"
  define cur' where "cur' = advance cur [r]"
  from Cons.IH [of "rs @ [r]" cur']
  obtain new where new: "results (executePipeline_loop lib (rs @ [r]) cur' ss) = (rs @ [r]) @ new
     \<and> length new = length ss
     \<and> finalOutput (executePipeline_loop lib (rs @ [r]) cur' ss) = advance cur' new
     \<and> (\<forall>k<length ss. new ! k = recorded lib (ss ! k) (advance cur' (take k new)))" ..
  have adv: "advance cur (r # xs) = advance cur' xs" for xs
    by (simp add: advance_def cur'_def)
  have step: "executePipeline_loop lib rs cur (s # ss) = executePipeline_loop lib (rs @ [r]) cur' ss"
    unfolding r_def cur'_def by (rule executePipeline_loop_step)
  have idx: "(r # new) ! k = recorded lib ((s # ss) ! k) (advance cur (take k (r # new)))"
    if "k < length (s # ss)" for k
  proof (cases k)
    case 0
    then show ?thesis by (simp add: r_def advance_def)
  next
    case (Suc j)
    then have "j < length ss" using that by simp
    then have "new ! j = recorded lib (ss ! j) (advance cur' (take j new))" using new by simp
    then show ?thesis using Suc by (simp add: adv)
  qed
  have "results (executePipeline_loop lib rs cur (s # ss)) = rs @ (r # new)
     \<and> length (r # new) = length (s # ss)
     \<and> finalOutput (executePipeline_loop lib rs cur (s # ss)) = advance cur (r # new)
     \<and> (\<forall>k<length (s # ss).
           (r # new) ! k = recorded lib ((s # ss) ! k) (advance cur (take k (r # new))))"
    unfolding step adv using new idx by simp
  then show ?case ..
qed

lemma advance_last_success:
  "advance cur rs = (case filter success rs of [] \<Rightarrow> cur | x # xs \<Rightarrow> output' (last (x # xs)))"
proof (induction rs rule: rev_induct)
  case Nil
  then show ?case by (simp add: advance_def)
next
  case (snoc r rs)
  have "advance cur (rs @ [r]) = (if success r then output' r else advance cur rs)"
    by (simp add: advance_def)
  then show ?case
    using snoc by (auto split: list.splits)
qed

lemma executePipeline_hi:
  "executePipeline lib (str ''hi'')
       [\<lparr> sId = i1, transformationId = str ''base64'', mode = Encode, options = o1 \<rparr>,
        \<lparr> sId = i2, transformationId = str ''unknown-id'', mode = Encode, options = o2 \<rparr>]
      = \<lparr> results =
            [\<lparr> stepId = i1, input = str ''hi'', output' = str ''aGk='', success = True, error = None \<rparr>,
             \<lparr> stepId = i2, input = str ''aGk='', output' = str ''aGk='', success = False,
                error = Some (str ''Transformation not found'') \<rparr>],
          finalOutput = str ''aGk='' \<rparr>"
  by (simp add: executePipeline_def base64_entry unknown_absent applyStep_def base64Encode_hi)

text \<open>
  C1. \<open>executePipeline\<close> records one result per step, in the order of the steps. The input
  of the result at position \<open>k\<close> is the current value there: the output of the last
  result before \<open>k\<close> that succeeded, or the pipeline input when none did. A step whose
  \<open>transformationId\<close> is not in the catalogue gets a failed result with the error
  \<open>Transformation not found\<close> and an output equal to its input, so it does not move the
  current value, and the steps after it are still run. A step whose transformation is in
  the catalogue gets the outcome of that transformation applied to the current value: a
  success with its output, or a failure with its error message and an output equal to the
  input. The function applied is \<open>encode\<close> or \<open>decode\<close> by the mode of the step, called
  with the current value and the options of the step; where it is absent the step fails
  with the message that the mode is not supported for the transformation. \<open>finalOutput\<close>
  is the current value after the last step. On \<open>hi\<close> with a
  \<open>base64\<close> step followed by an \<open>unknown-id\<close> step the first result succeeds with
  \<open>aGk=\<close>, the second is the failure, and \<open>finalOutput\<close> is \<open>aGk=\<close>.
\<close>

theorem executePipeline_threading:
  "(let rs = results (executePipeline lib inp steps);
        current = (\<lambda>k. case filter success (take k rs) of
                           [] \<Rightarrow> inp | x # xs \<Rightarrow> output' (last (x # xs)))
    in length rs = length steps
       \<and> (\<forall>k<length steps.
            stepId (rs ! k) = sId (steps ! k) \<and> input (rs ! k) = current k
            \<and> (getTransformation lib (transformationId (steps ! k)) = None \<longrightarrow>
                 rs ! k = \<lparr> stepId = sId (steps ! k), input = current k, output' = current k,
                            success = False, error = Some (str ''Transformation not found'') \<rparr>)
            \<and> (\<forall>t out. getTransformation lib (transformationId (steps ! k)) = Some t
                   \<and> applyStep t (steps ! k) (current k) = Inr out \<longrightarrow>
                 rs ! k = \<lparr> stepId = sId (steps ! k), input = current k, output' = out,
                            success = True, error = None \<rparr>)
            \<and> (\<forall>t e. getTransformation lib (transformationId (steps ! k)) = Some t
                   \<and> applyStep t (steps ! k) (current k) = Inl e \<longrightarrow>
                 rs ! k = \<lparr> stepId = sId (steps ! k), input = current k, output' = current k,
                            success = False, error = Some (errorMessage e) \<rparr>)
            \<and> (\<forall>t. getTransformation lib (transformationId (steps ! k)) = Some t
                   \<and> (if mode (steps ! k) = Encode then encode t else decode t) = None \<longrightarrow>
                 rs ! k = \<lparr> stepId = sId (steps ! k), input = current k, output' = current k,
                            success = False,
                            error = Some (modeText (mode (steps ! k)) @ str '' not supported for ''
                                          @ name t) \<rparr>)
            \<and> (\<forall>t fn out. getTransformation lib (transformationId (steps ! k)) = Some t
                   \<and> (if mode (steps ! k) = Encode then encode t else decode t) = Some fn
                   \<and> fn (current k) (options (steps ! k)) = Inr out \<longrightarrow>
                 rs ! k = \<lparr> stepId = sId (steps ! k), input = current k, output' = out,
                            success = True, error = None \<rparr>)
            \<and> (\<forall>t fn e. getTransformation lib (transformationId (steps ! k)) = Some t
                   \<and> (if mode (steps ! k) = Encode then encode t else decode t) = Some fn
                   \<and> fn (current k) (options (steps ! k)) = Inl e \<longrightarrow>
                 rs ! k = \<lparr> stepId = sId (steps ! k), input = current k, output' = current k,
                            success = False, error = Some (errorMessage e) \<rparr>))
       \<and> finalOutput (executePipeline lib inp steps) = current (length steps))
   \<and> executePipeline lib (str ''hi'')
       [\<lparr> sId = i1, transformationId = str ''base64'', mode = Encode, options = o1 \<rparr>,
        \<lparr> sId = i2, transformationId = str ''unknown-id'', mode = Encode, options = o2 \<rparr>]
      = \<lparr> results =
            [\<lparr> stepId = i1, input = str ''hi'', output' = str ''aGk='', success = True, error = None \<rparr>,
             \<lparr> stepId = i2, input = str ''aGk='', output' = str ''aGk='', success = False,
                error = Some (str ''Transformation not found'') \<rparr>],
          finalOutput = str ''aGk='' \<rparr>
   \<and> base64Encode (str ''hi'') = Inr (str ''aGk='')"
proof -
  from executePipeline_loop_inv [of lib "[]" inp steps]
  obtain new where new: "results (executePipeline_loop lib [] inp steps) = [] @ new
     \<and> length new = length steps
     \<and> finalOutput (executePipeline_loop lib [] inp steps) = advance inp new
     \<and> (\<forall>k<length steps. new ! k = recorded lib (steps ! k) (advance inp (take k new)))" ..
  have rs: "results (executePipeline lib inp steps) = new"
    using new by (simp add: executePipeline_def)
  have len: "length new = length steps"
    using new by simp
  have fin: "finalOutput (executePipeline lib inp steps) = advance inp (take (length steps) new)"
    using new by (simp add: executePipeline_def)
  have rec: "new ! k = recorded lib (steps ! k) (advance inp (take k new))" if "k < length steps" for k
    using new that by simp
  have at: "stepId (new ! k) = sId (steps ! k) \<and> input (new ! k) = advance inp (take k new)
            \<and> (getTransformation lib (transformationId (steps ! k)) = None \<longrightarrow>
                 new ! k = \<lparr> stepId = sId (steps ! k), input = advance inp (take k new),
                             output' = advance inp (take k new),
                             success = False, error = Some (str ''Transformation not found'') \<rparr>)
            \<and> (\<forall>t out. getTransformation lib (transformationId (steps ! k)) = Some t
                   \<and> applyStep t (steps ! k) (advance inp (take k new)) = Inr out \<longrightarrow>
                 new ! k = \<lparr> stepId = sId (steps ! k), input = advance inp (take k new),
                             output' = out, success = True, error = None \<rparr>)
            \<and> (\<forall>t e. getTransformation lib (transformationId (steps ! k)) = Some t
                   \<and> applyStep t (steps ! k) (advance inp (take k new)) = Inl e \<longrightarrow>
                 new ! k = \<lparr> stepId = sId (steps ! k), input = advance inp (take k new),
                             output' = advance inp (take k new),
                             success = False, error = Some (errorMessage e) \<rparr>)
            \<and> (\<forall>t. getTransformation lib (transformationId (steps ! k)) = Some t
                   \<and> (if mode (steps ! k) = Encode then encode t else decode t) = None \<longrightarrow>
                 new ! k = \<lparr> stepId = sId (steps ! k), input = advance inp (take k new),
                             output' = advance inp (take k new), success = False,
                             error = Some (modeText (mode (steps ! k)) @ str '' not supported for ''
                                           @ name t) \<rparr>)
            \<and> (\<forall>t fn out. getTransformation lib (transformationId (steps ! k)) = Some t
                   \<and> (if mode (steps ! k) = Encode then encode t else decode t) = Some fn
                   \<and> fn (advance inp (take k new)) (options (steps ! k)) = Inr out \<longrightarrow>
                 new ! k = \<lparr> stepId = sId (steps ! k), input = advance inp (take k new),
                             output' = out, success = True, error = None \<rparr>)
            \<and> (\<forall>t fn e. getTransformation lib (transformationId (steps ! k)) = Some t
                   \<and> (if mode (steps ! k) = Encode then encode t else decode t) = Some fn
                   \<and> fn (advance inp (take k new)) (options (steps ! k)) = Inl e \<longrightarrow>
                 new ! k = \<lparr> stepId = sId (steps ! k), input = advance inp (take k new),
                             output' = advance inp (take k new),
                             success = False, error = Some (errorMessage e) \<rparr>)"
    if "k < length steps" for k
    unfolding rec [OF that]
    by (simp add: recorded_fields) (simp add: recorded_def resolved_def notFound_def applyStep_def)
  have mid: "(\<forall>k<length steps.
         stepId (new ! k) = sId (steps ! k) \<and> input (new ! k) = advance inp (take k new)
         \<and> (getTransformation lib (transformationId (steps ! k)) = None \<longrightarrow>
              new ! k = \<lparr> stepId = sId (steps ! k), input = advance inp (take k new),
                          output' = advance inp (take k new),
                          success = False, error = Some (str ''Transformation not found'') \<rparr>)
         \<and> (\<forall>t out. getTransformation lib (transformationId (steps ! k)) = Some t
                \<and> applyStep t (steps ! k) (advance inp (take k new)) = Inr out \<longrightarrow>
              new ! k = \<lparr> stepId = sId (steps ! k), input = advance inp (take k new),
                          output' = out, success = True, error = None \<rparr>)
         \<and> (\<forall>t e. getTransformation lib (transformationId (steps ! k)) = Some t
                \<and> applyStep t (steps ! k) (advance inp (take k new)) = Inl e \<longrightarrow>
              new ! k = \<lparr> stepId = sId (steps ! k), input = advance inp (take k new),
                       output' = advance inp (take k new),
                       success = False, error = Some (errorMessage e) \<rparr>)
         \<and> (\<forall>t. getTransformation lib (transformationId (steps ! k)) = Some t
                \<and> (if mode (steps ! k) = Encode then encode t else decode t) = None \<longrightarrow>
              new ! k = \<lparr> stepId = sId (steps ! k), input = advance inp (take k new),
                       output' = advance inp (take k new), success = False,
                       error = Some (modeText (mode (steps ! k)) @ str '' not supported for ''
                                  @ name t) \<rparr>)
         \<and> (\<forall>t fn out. getTransformation lib (transformationId (steps ! k)) = Some t
                \<and> (if mode (steps ! k) = Encode then encode t else decode t) = Some fn
                \<and> fn (advance inp (take k new)) (options (steps ! k)) = Inr out \<longrightarrow>
              new ! k = \<lparr> stepId = sId (steps ! k), input = advance inp (take k new),
                       output' = out, success = True, error = None \<rparr>)
         \<and> (\<forall>t fn e. getTransformation lib (transformationId (steps ! k)) = Some t
                \<and> (if mode (steps ! k) = Encode then encode t else decode t) = Some fn
                \<and> fn (advance inp (take k new)) (options (steps ! k)) = Inl e \<longrightarrow>
              new ! k = \<lparr> stepId = sId (steps ! k), input = advance inp (take k new),
                       output' = advance inp (take k new),
                       success = False, error = Some (errorMessage e) \<rparr>))"
    by (intro allI impI) (rule at)
  show ?thesis
    unfolding Let_def rs advance_last_success [symmetric]
    by (intro conjI) (rule len mid fin executePipeline_hi base64Encode_hi)+
qed

text \<open>
  The general part on two \<open>base64\<close> steps, an unregistered step and a \<open>sha256\<close> step in
  decode mode: the second step encodes the output of the first, and the two failures do
  not move the value.
\<close>

theorem executePipeline_threading_witness:
  "results (executePipeline noLibrary (str ''hi'')
       [\<lparr> sId = str ''a'', transformationId = str ''base64'', mode = Encode, options = None \<rparr>,
        \<lparr> sId = str ''b'', transformationId = str ''base64'', mode = Encode, options = None \<rparr>,
        \<lparr> sId = str ''c'', transformationId = str ''unknown-id'', mode = Encode, options = None \<rparr>,
        \<lparr> sId = str ''d'', transformationId = str ''sha256'', mode = Decode, options = None \<rparr>])
     = [\<lparr> stepId = str ''a'', input = str ''hi'', output' = str ''aGk='', success = True,
           error = None \<rparr>,
        \<lparr> stepId = str ''b'', input = str ''aGk='', output' = str ''YUdrPQ=='', success = True,
           error = None \<rparr>,
        \<lparr> stepId = str ''c'', input = str ''YUdrPQ=='', output' = str ''YUdrPQ=='', success = False,
           error = Some (str ''Transformation not found'') \<rparr>,
        \<lparr> stepId = str ''d'', input = str ''YUdrPQ=='', output' = str ''YUdrPQ=='', success = False,
           error = Some (str ''decode not supported for SHA-256'') \<rparr>]
   \<and> finalOutput (executePipeline noLibrary (str ''hi'')
       [\<lparr> sId = str ''a'', transformationId = str ''base64'', mode = Encode, options = None \<rparr>,
        \<lparr> sId = str ''b'', transformationId = str ''base64'', mode = Encode, options = None \<rparr>,
        \<lparr> sId = str ''c'', transformationId = str ''unknown-id'', mode = Encode, options = None \<rparr>,
        \<lparr> sId = str ''d'', transformationId = str ''sha256'', mode = Decode, options = None \<rparr>])
     = str ''YUdrPQ==''"
proof -
  define S where "S =
       [\<lparr> sId = str ''a'', transformationId = str ''base64'', mode = Encode, options = None \<rparr>,
        \<lparr> sId = str ''b'', transformationId = str ''base64'', mode = Encode, options = None \<rparr>,
        \<lparr> sId = str ''c'', transformationId = str ''unknown-id'', mode = Encode, options = None \<rparr>,
        \<lparr> sId = str ''d'', transformationId = str ''sha256'', mode = Decode, options = None \<rparr>]"
  define rs where "rs = results (executePipeline noLibrary (str ''hi'') S)"
  note T = executePipeline_threading [of noLibrary "str ''hi''" S, THEN conjunct1,
      unfolded Let_def, folded rs_def]
  have len: "length rs = 4"
    using T by (simp add: S_def)
  have again: "base64Encode (str ''aGk='') = Inr (str ''YUdrPQ=='')"
    by (simp add: base64Encode_def encodeURIComponent_def isLoneSurrogate_def uriUnescaped_def
        isLeadSurrogate_def isTrailSurrogate_def percentHex_def utf8Bytes_def hexDigitUpper_def
        isHexDigit_def hexValue_def hexDigitValue_def
        isAlnum_def isUpper_def isLower_def isDigit_def btoa_def base64Alphabet_def str_def)
  have msg: "str ''decode'' @ str '' not supported for '' @ str ''SHA-256''
             = str ''decode not supported for SHA-256''"
    by (simp add: str_def)
  have r0: "rs ! 0 = \<lparr> stepId = str ''a'', input = str ''hi'', output' = str ''aGk='',
                        success = True, error = None \<rparr>"
    using T [THEN conjunct2, THEN conjunct1, rule_format, of 0]
    by (simp add: S_def base64_entry applyStep_def base64Encode_hi)
  have t1: "take (Suc 0) rs = [rs ! 0]"
    using len by (simp add: take_Suc_conv_app_nth)
  have r1: "rs ! Suc 0 = \<lparr> stepId = str ''b'', input = str ''aGk='', output' = str ''YUdrPQ=='',
                        success = True, error = None \<rparr>"
    using T [THEN conjunct2, THEN conjunct1, rule_format, of "Suc 0"]
    by (simp add: S_def base64_entry applyStep_def again t1 r0)
  have t2: "take (Suc (Suc 0)) rs = [rs ! 0, rs ! Suc 0]"
    using len by (simp add: take_Suc_conv_app_nth)
  have r2: "rs ! Suc (Suc 0) = \<lparr> stepId = str ''c'', input = str ''YUdrPQ=='',
                        output' = str ''YUdrPQ=='', success = False,
                        error = Some (str ''Transformation not found'') \<rparr>"
    using T [THEN conjunct2, THEN conjunct1, rule_format, of "Suc (Suc 0)"]
    by (simp add: S_def unknown_absent t2 r0 r1)
  have t3: "take (Suc (Suc (Suc 0))) rs = [rs ! 0, rs ! Suc 0, rs ! Suc (Suc 0)]"
    using len by (simp add: take_Suc_conv_app_nth)
  have r3: "rs ! Suc (Suc (Suc 0)) = \<lparr> stepId = str ''d'', input = str ''YUdrPQ=='',
                        output' = str ''YUdrPQ=='', success = False,
                        error = Some (str ''decode not supported for SHA-256'') \<rparr>"
    using T [THEN conjunct2, THEN conjunct1, rule_format, of "Suc (Suc (Suc 0))"]
    by (simp add: S_def sha256_entry t3 r0 r1 r2 msg)
  have t4: "rs = [rs ! 0, rs ! Suc 0, rs ! Suc (Suc 0), rs ! Suc (Suc (Suc 0))]"
    using len by (simp add: list_eq_iff_nth_eq less_Suc_eq eval_nat_numeral)
  have all: "rs = [\<lparr> stepId = str ''a'', input = str ''hi'', output' = str ''aGk='', success = True,
           error = None \<rparr>,
        \<lparr> stepId = str ''b'', input = str ''aGk='', output' = str ''YUdrPQ=='', success = True,
           error = None \<rparr>,
        \<lparr> stepId = str ''c'', input = str ''YUdrPQ=='', output' = str ''YUdrPQ=='', success = False,
           error = Some (str ''Transformation not found'') \<rparr>,
        \<lparr> stepId = str ''d'', input = str ''YUdrPQ=='', output' = str ''YUdrPQ=='', success = False,
           error = Some (str ''decode not supported for SHA-256'') \<rparr>]"
    using t4 r0 r1 r2 r3 by simp
  have "finalOutput (executePipeline noLibrary (str ''hi'') S) = str ''YUdrPQ==''"
    using T [THEN conjunct2, THEN conjunct2] len all by (simp add: S_def)
  then show ?thesis
    using all unfolding rs_def S_def by simp
qed

subsection \<open>The risk analyzer\<close>

lemma hash_id_found:
  assumes "i \<in> set hashTransformIds"
  shows "\<exists>t. getTransformation lib i = Some t \<and> tId t = i"
proof -
  have "i \<in> set (map tId (transformations lib))"
    using assms unfolding registry_ids by (auto simp: hashTransformIds_def)
  then show ?thesis
    using registry_member by blast
qed

lemma idOrEmpty_hash: "transformationId s \<in> set hashTransformIds \<Longrightarrow> idOrEmpty lib s = transformationId s"
  using hash_id_found [of "transformationId s" lib] by (auto simp: idOrEmpty_def)

text \<open>
  C7. When some step names a transformation of the hash set and some step in encode mode
  resolves to a transformation of category \<open>Base Encoding\<close>, \<open>analyzePipeline\<close> returns a
  warning of type \<open>chain-risk\<close> whose \<open>stepIds\<close> are the ids of all steps, in order.
\<close>

theorem analyzePipeline_chain_risk:
  assumes "s1 \<in> set steps" and "transformationId s1 \<in> set hashTransformIds"
    and "s2 \<in> set steps" and "getTransformation lib (transformationId s2) = Some t"
    and "category t = str ''Base Encoding''" and "mode s2 = Encode"
  shows "list_ex (\<lambda>w. wtype w = ChainRisk \<and> stepIds w = map sId steps) (analyzePipeline lib steps)"
proof -
  have h: "hasHash lib steps"
    unfolding hasHash_def list_ex_iff using assms(1,2) idOrEmpty_hash [of s1 lib]
    by (intro bexI [of _ s1]) simp_all
  have e: "hasEncoding lib steps"
    unfolding hasEncoding_def list_ex_iff using assms(3-6) by (intro bexI [of _ s2]) auto
  show ?thesis
    using h e by (simp add: analyzePipeline_def Let_def)
qed

lemma base64_entry_fields:
  "\<exists>t. getTransformation lib (str ''base64'') = Some t \<and> category t = str ''Base Encoding''"
  by (simp add: getTransformation_def transformations_def)

text \<open>An \<open>md5\<close> step in decode mode followed by a \<open>base64\<close> step in encode mode.\<close>

theorem analyzePipeline_chain_risk_witness:
  "list_ex (\<lambda>w. wtype w = ChainRisk \<and> stepIds w = [str ''h'', str ''e''])
     (analyzePipeline noLibrary
        [\<lparr> sId = str ''h'', transformationId = str ''md5'', mode = Decode, options = None \<rparr>,
         \<lparr> sId = str ''e'', transformationId = str ''base64'', mode = Encode, options = None \<rparr>])"
proof -
  obtain t where t: "getTransformation noLibrary (str ''base64'') = Some t" "category t = str ''Base Encoding''"
    using base64_entry_fields by blast
  have m: "str ''md5'' \<in> set hashTransformIds"
    by (simp add: hashTransformIds_def)
  show ?thesis
    using analyzePipeline_chain_risk
      [of "\<lparr> sId = str ''h'', transformationId = str ''md5'', mode = Decode, options = None \<rparr>"
          "[\<lparr> sId = str ''h'', transformationId = str ''md5'', mode = Decode, options = None \<rparr>,
            \<lparr> sId = str ''e'', transformationId = str ''base64'', mode = Encode, options = None \<rparr>]"
          "\<lparr> sId = str ''e'', transformationId = str ''base64'', mode = Encode, options = None \<rparr>"
          noLibrary t] t m
    by simp
qed

text \<open>
  C5. For a single step on \<open>sha256\<close> in encode mode, whatever its id and options,
  \<open>analyzePipeline\<close> returns two warnings of type \<open>irreversible\<close>: the generic one and the
  one about hashes, with different messages, each listing exactly that step.
\<close>

theorem analyzePipeline_sha256:
  "analyzePipeline lib [\<lparr> sId = i, transformationId = str ''sha256'', mode = Encode, options = opts \<rparr>]
     = [\<lparr> wtype = IrreversibleWarning, message = irreversibleMessage, stepIds = [i] \<rparr>,
        \<lparr> wtype = IrreversibleWarning, message = hashDetectedMessage, stepIds = [i] \<rparr>]
   \<and> irreversibleMessage \<noteq> hashDetectedMessage"
proof -
  have ids: "str ''sha256'' \<in> set hashTransformIds" "str ''sha256'' \<notin> set analysisTransformIds"
    by (simp_all add: hashTransformIds_def analysisTransformIds_def str_def)
  have cat: "str ''Hash'' \<noteq> str ''Base Encoding''"
    by (simp add: str_def)
  have msg: "irreversibleMessage \<noteq> hashDetectedMessage"
    by (simp add: irreversibleMessage_def hashDetectedMessage_def)
  show ?thesis
    using ids cat msg
    by (simp add: analyzePipeline_def classifyStep_def sha256_entry hasEncoding_def)
qed

subsection \<open>The detection engine\<close>

lemmas regex_eval =
  matches_def search_def Plus_def Opt_def Lits_def anyUnit_def reAlpha_def reDigit_def reWord_def
  reHex_def reSpace_def chars_def str_def cat_def alt_def inClass_def

lemmas pattern_defs =
  jwtPattern_def jwtChars_def base64Pattern_def base32Pattern_def base58Pattern_def hexPattern_def
  binaryPattern_def urlPattern_def htmlEntityPattern_def unicodeEscapePattern_def braillePattern_def
  zeroWidthPattern_def binaryEmojiPattern_def punctuationPattern_def whitespacePattern_def
  morsePattern_def baconPattern_def polybiusPattern_def polybiusPairPattern_def lettersPattern_def

lemma filterBoolean_set: "set (filterBoolean xs) = {x. Some x \<in> set xs}"
proof (induction xs)
  case Nil
  then show ?case by simp
next
  case (Cons a xs)
  then show ?case by (cases a) auto
qed

lemma pushIf_registered: "Some t \<in> set (pushIf lib c i) \<Longrightarrow> t \<in> set (transformations lib)"
  using find_tId [of i "transformations lib" t] by (auto simp: pushIf_def findById_def split: if_splits)

text \<open>
  C10. Every element of the list \<open>detectPossibleEncodings\<close> returns is a descriptor of the
  catalogue. The id \<open>jwt-decode\<close> of the JWT heuristic is not registered, and what its
  lookup pushes is removed by the final filter.
\<close>

theorem detectPossibleEncodings_registered:
  "(\<forall>t \<in> set (detectPossibleEncodings lib inp). t \<in> set (transformations lib))
   \<and> findById lib (str ''jwt-decode'') = None
   \<and> filterBoolean (pushIf lib c (str ''jwt-decode'')) = []"
proof -
  have "t \<in> set (transformations lib)" if "t \<in> set (detectPossibleEncodings lib inp)" for t
    using that unfolding detectPossibleEncodings_def filterBoolean_set
    by (auto dest: pushIf_registered)
  then show ?thesis
    by (simp add: jwt_absent pushIf_def)
qed

text \<open>
  The input \<open>-.-.-\<close> has the shape of a JWT and of Morse code: the JWT lookup is dropped
  and the list holds the \<open>morse\<close> descriptor only.
\<close>

theorem detectPossibleEncodings_registered_witness:
  "matches jwtPattern (str ''-.-.-'')
   \<and> map tId (detectPossibleEncodings noLibrary (str ''-.-.-'')) = [str ''morse'']
   \<and> hd (detectPossibleEncodings noLibrary (str ''-.-.-'')) \<in> set (transformations noLibrary)"
proof -
  have j: "matches jwtPattern (str ''-.-.-'')"
    by (simp add: matches_def jwtPattern_def jwtChars_def Plus_def Lits_def reAlpha_def reDigit_def chars_def str_def cat_def alt_def inClass_def)
  have d: "map tId (detectPossibleEncodings noLibrary (str ''-.-.-'')) = [str ''morse'']"
    by (simp add: detectPossibleEncodings_def pushIf_def pattern_defs regex_eval startsWith_def
        endsWith_def includesStr_def indexOf_def emojiAlphabetChars_def skinTones_def baseEmoji_def
        findById_def transformations_def)
  then have "hd (detectPossibleEncodings noLibrary (str ''-.-.-'')) \<in> set (detectPossibleEncodings noLibrary (str ''-.-.-''))"
    by (intro hd_in_set) auto
  then show ?thesis
    using detectPossibleEncodings_registered [of noLibrary "str ''-.-.-''"] j d by blast
qed

declare detectMultiLayer_loop.simps [simp del]

lemma filterBoolean_append: "filterBoolean (xs @ ys) = filterBoolean xs @ filterBoolean ys"
proof (induction xs)
  case Nil
  then show ?case by simp
next
  case (Cons a xs)
  then show ?case by (cases a) simp_all
qed

lemma jwt_filtered: "filterBoolean (pushIf lib c (str ''jwt-decode'')) = []"
  by (simp add: pushIf_def jwt_absent)

lemma base64_found:
  "findById lib (str ''base64'') =
     Some \<lparr> tId = str ''base64'', name = str ''Base64'', category = str ''Base Encoding'',
            description = str ''Standard Base64 encoding/decoding'',
            canEncode = True, canDecode = True, reversibility = Reversible, riskLevel = Low,
            encode = Some (\<lambda>input options. base64Encode input),
            decode = Some (\<lambda>input options. base64Decode input) \<rparr>"
  by (simp add: findById_def transformations_def str_def)

lemma base32_found:
  "findById lib (str ''base32'') =
     Some \<lparr> tId = str ''base32'', name = str ''Base32'', category = str ''Base Encoding'',
            description = str ''RFC 4648 compliant Base32 encoding'',
            canEncode = True, canDecode = True, reversibility = Reversible, riskLevel = Low,
            encode = Some (extern lib ''base32Encode''),
            decode = Some (\<lambda>input options. Inr (base32Decode lib input)) \<rparr>"
  by (simp add: findById_def transformations_def str_def)

lemma pushIf_True: "pushIf lib True i = [findById lib i]"
  by (simp add: pushIf_def)

lemma pushIf_False: "pushIf lib False i = []"
  by (simp add: pushIf_def)

text \<open>The first candidate when the Base64 heuristic fires, and when only Base32 does.\<close>

lemma detect_head_base64:
  assumes "matches base64Pattern inp" and "length inp mod 4 = 0"
  shows "\<exists>t others. detectPossibleEncodings lib inp = t # others
           \<and> name t = str ''Base64'' \<and> decode t = Some (\<lambda>input options. base64Decode input)"
  unfolding detectPossibleEncodings_def filterBoolean_append jwt_filtered
  using assms by (simp add: pushIf_True base64_found)

lemma detect_head_base32:
  assumes "\<not> (matches base64Pattern inp \<and> length inp mod 4 = 0)" and "matches base32Pattern inp"
  shows "\<exists>t others. detectPossibleEncodings lib inp = t # others
           \<and> name t = str ''Base32''
           \<and> decode t = Some (\<lambda>input options. Inr (base32Decode lib input))"
proof -
  have no64: "pushIf lib (matches base64Pattern inp \<and> length inp mod 4 = 0) (str ''base64'') = []"
    using assms(1) by (simp add: pushIf_def)
  show ?thesis
    unfolding detectPossibleEncodings_def filterBoolean_append jwt_filtered no64
    using assms(2) by (simp add: pushIf_True base32_found)
qed

lemma detectMultiLayer_loop_peel:
  assumes "depth < maxDepth" and "detectPossibleEncodings lib cur = t # others"
    and "decode t = Some fn" and "fn cur None = Inr d" and "d \<noteq> cur" and "d \<noteq> []"
  shows "detectMultiLayer_loop lib maxDepth layers cur depth
         = detectMultiLayer_loop lib maxDepth
             (layers @ [str ''Layer '' @ toStringDec (depth + 1) @ str '': '' @ name t]) d (depth + 1)"
  by (subst detectMultiLayer_loop.simps) (simp add: assms)

lemma detectMultiLayer_loop_stop:
  "\<not> depth < maxDepth \<Longrightarrow> detectMultiLayer_loop lib maxDepth layers cur depth = (layers, cur)"
  by (subst detectMultiLayer_loop.simps) simp

lemma heuristics_outer: "matches base64Pattern (str ''Wlc1aw=='')"
  by (simp add: base64Pattern_def regex_eval)

lemma heuristics_inner: "matches base64Pattern (str ''ZW5k'')"
  by (simp add: base64Pattern_def regex_eval)

lemma heuristics_end: "matches base32Pattern (str ''end'')"
  by (simp add: base32Pattern_def regex_eval)

lemma base64Decode_outer: "base64Decode (str ''Wlc1aw=='') = Inr (str ''ZW5k'')"
  by (simp add: base64Decode_def atob_def stripPadding_def isAsciiWhitespace_def isBase64Char_def
      base64Index_def isAlnum_def isUpper_def isLower_def isDigit_def escape_def escapeUnescaped_def
      decodeURIComponent_def str_def)

lemma base64Decode_inner: "base64Decode (str ''ZW5k'') = Inr (str ''end'')"
  by (simp add: base64Decode_def atob_def stripPadding_def isAsciiWhitespace_def isBase64Char_def
      base64Index_def isAlnum_def isUpper_def isLower_def isDigit_def escape_def escapeUnescaped_def
      decodeURIComponent_def str_def)

lemma base32Decode_end: "base32Decode lib (str ''end'') = str ''#''"
  by (simp add: base32Decode_def stripTrailingEquals_def toUpperCase_def isLower_def
      isLeadSurrogate_def isTrailSurrogate_def BASE32_ALPHABET_def indexOf_def Uint8Array_def
      TextDecoder_decode_def stripBOM_def utf8_lead_def utf8_initial_def str_def)

lemma detectMultiLayer_trace:
  "detectMultiLayer lib (str ''Wlc1aw=='') 3
     = [str ''Layer 1: Base64'', str ''Layer 2: Base64'', str ''Layer 3: Base32'', str ''Final: #'']
   \<and> detectMultiLayer lib (str ''Wlc1aw=='') 2
     = [str ''Layer 1: Base64'', str ''Layer 2: Base64'', str ''Final: end'']"
proof -
  obtain t1 o1 where t1: "detectPossibleEncodings lib (str ''Wlc1aw=='') = t1 # o1"
      "name t1 = str ''Base64''" "decode t1 = Some (\<lambda>input options. base64Decode input)"
    using detect_head_base64 [OF heuristics_outer, of lib] by (auto simp: str_def)
  obtain t2 o2 where t2: "detectPossibleEncodings lib (str ''ZW5k'') = t2 # o2"
      "name t2 = str ''Base64''" "decode t2 = Some (\<lambda>input options. base64Decode input)"
    using detect_head_base64 [OF heuristics_inner, of lib] by (auto simp: str_def)
  have "\<not> (matches base64Pattern (str ''end'') \<and> length (str ''end'') mod 4 = 0)"
    by (simp add: str_def)
  then obtain t3 o3 where t3: "detectPossibleEncodings lib (str ''end'') = t3 # o3"
      "name t3 = str ''Base32''" "decode t3 = Some (\<lambda>input options. Inr (base32Decode lib input))"
    using detect_head_base32 [OF _ heuristics_end, of lib] by blast
  have f1: "(\<lambda>input options. base64Decode input) (str ''Wlc1aw=='') None = Inr (str ''ZW5k'')"
    by (simp add: base64Decode_outer)
  have f2: "(\<lambda>input options. base64Decode input) (str ''ZW5k'') None = Inr (str ''end'')"
    by (simp add: base64Decode_inner)
  have f3: "(\<lambda>input options. Inr (base32Decode lib input)) (str ''end'') None = Inr (str ''#'')"
    by (simp add: base32Decode_end)
  have n1: "str ''ZW5k'' \<noteq> str ''Wlc1aw==''" "str ''ZW5k'' \<noteq> []"
    and n2: "str ''end'' \<noteq> str ''ZW5k''" "str ''end'' \<noteq> []"
    and n3: "str ''#'' \<noteq> str ''end''" "str ''#'' \<noteq> []"
    by (simp_all add: str_def)
  have l1: "detectMultiLayer_loop lib m [] (str ''Wlc1aw=='') 0
            = detectMultiLayer_loop lib m [str ''Layer 1: Base64''] (str ''ZW5k'') 1" if "0 < m" for m
  proof -
    have "([] :: jsstring list) @ [str ''Layer '' @ toStringDec (0 + 1) @ str '': '' @ name t1]
          = [str ''Layer 1: Base64'']"
      by (simp add: t1(2) str_def)
    moreover have "(0 :: nat) + 1 = 1"
      by simp
    ultimately show ?thesis
      using detectMultiLayer_loop_peel [OF that t1(1) t1(3) f1 n1, of "[]"] by (simp only:)
  qed
  have l2: "detectMultiLayer_loop lib m [str ''Layer 1: Base64''] (str ''ZW5k'') 1
            = detectMultiLayer_loop lib m [str ''Layer 1: Base64'', str ''Layer 2: Base64''] (str ''end'') 2"
    if "1 < m" for m
  proof -
    have "[str ''Layer 1: Base64''] @ [str ''Layer '' @ toStringDec (1 + 1) @ str '': '' @ name t2]
          = [str ''Layer 1: Base64'', str ''Layer 2: Base64'']"
      by (simp add: t2(2) str_def)
    moreover have "(1 :: nat) + 1 = 2"
      by simp
    ultimately show ?thesis
      using detectMultiLayer_loop_peel [OF that t2(1) t2(3) f2 n2, of "[str ''Layer 1: Base64'']"]
      by (simp only:)
  qed
  have l3: "detectMultiLayer_loop lib m [str ''Layer 1: Base64'', str ''Layer 2: Base64''] (str ''end'') 2
            = detectMultiLayer_loop lib m
                [str ''Layer 1: Base64'', str ''Layer 2: Base64'', str ''Layer 3: Base32''] (str ''#'') 3"
    if "2 < m" for m
  proof -
    have "[str ''Layer 1: Base64'', str ''Layer 2: Base64'']
            @ [str ''Layer '' @ toStringDec (2 + 1) @ str '': '' @ name t3]
          = [str ''Layer 1: Base64'', str ''Layer 2: Base64'', str ''Layer 3: Base32'']"
      by (simp add: t3(2) str_def)
    moreover have "(2 :: nat) + 1 = 3"
      by simp
    ultimately show ?thesis
      using detectMultiLayer_loop_peel [OF that t3(1) t3(3) f3 n3,
          of "[str ''Layer 1: Base64'', str ''Layer 2: Base64'']"]
      by (simp only:)
  qed
  have three: "detectMultiLayer_loop lib 3 [] (str ''Wlc1aw=='') 0
        = ([str ''Layer 1: Base64'', str ''Layer 2: Base64'', str ''Layer 3: Base32''], str ''#'')"
  proof -
    have "detectMultiLayer_loop lib 3 [] (str ''Wlc1aw=='') 0
          = detectMultiLayer_loop lib 3 [str ''Layer 1: Base64''] (str ''ZW5k'') 1"
      by (rule l1) simp
    also have "\<dots> = detectMultiLayer_loop lib 3 [str ''Layer 1: Base64'', str ''Layer 2: Base64'']
                        (str ''end'') 2"
      by (rule l2) simp
    also have "\<dots> = detectMultiLayer_loop lib 3
                        [str ''Layer 1: Base64'', str ''Layer 2: Base64'', str ''Layer 3: Base32'']
                        (str ''#'') 3"
      by (rule l3) simp
    also have "\<dots> = ([str ''Layer 1: Base64'', str ''Layer 2: Base64'', str ''Layer 3: Base32''],
                       str ''#'')"
      by (rule detectMultiLayer_loop_stop) simp
    finally show ?thesis .
  qed
  have two: "detectMultiLayer_loop lib 2 [] (str ''Wlc1aw=='') 0
        = ([str ''Layer 1: Base64'', str ''Layer 2: Base64''], str ''end'')"
  proof -
    have "detectMultiLayer_loop lib 2 [] (str ''Wlc1aw=='') 0
          = detectMultiLayer_loop lib 2 [str ''Layer 1: Base64''] (str ''ZW5k'') 1"
      by (rule l1) simp
    also have "\<dots> = detectMultiLayer_loop lib 2 [str ''Layer 1: Base64'', str ''Layer 2: Base64'']
                        (str ''end'') 2"
      by (rule l2) simp
    also have "\<dots> = ([str ''Layer 1: Base64'', str ''Layer 2: Base64''], str ''end'')"
      by (rule detectMultiLayer_loop_stop) simp
    finally show ?thesis .
  qed
  show ?thesis
    unfolding detectMultiLayer_def three two by (simp add: str_def)
qed

text \<open>
  C4 (as amended). On \<open>Wlc1aw==\<close> with \<open>maxDepth = 3\<close> the trace has three layers and the
  final entry \<open>Final: #\<close>: after two Base64 layers the value \<open>end\<close> matches the Base32
  heuristic and is decoded once more. With \<open>maxDepth = 2\<close> the trace has two layers and the
  final entry \<open>Final: end\<close>.
\<close>

theorem detectMultiLayer_three_layers:
  "detectMultiLayer lib (str ''Wlc1aw=='') 3
     = [str ''Layer 1: Base64'', str ''Layer 2: Base64'', str ''Layer 3: Base32'', str ''Final: #'']
   \<and> detectMultiLayer lib (str ''Wlc1aw=='') 2
     = [str ''Layer 1: Base64'', str ''Layer 2: Base64'', str ''Final: end'']"
  using detectMultiLayer_trace [of lib] by simp

text \<open>
  C4 as stated fails: with \<open>maxDepth = 3\<close> the trace has four entries, and its last one
  does not contain \<open>end\<close>.
\<close>

theorem detectMultiLayer_two_layers_counterexample:
  "\<not> (length (detectMultiLayer noLibrary (str ''Wlc1aw=='') 3) = 3
        \<and> includesStr (last (detectMultiLayer noLibrary (str ''Wlc1aw=='') 3)) (str ''end''))"
proof -
  have "detectMultiLayer noLibrary (str ''Wlc1aw=='') 3
     = [str ''Layer 1: Base64'', str ''Layer 2: Base64'', str ''Layer 3: Base32'', str ''Final: #'']"
    using detectMultiLayer_trace [of noLibrary] by simp
  then show ?thesis
    by simp
qed

subsection \<open>The algorithm library\<close>

lemma emojiSkinTone_entry:
  "findById lib (str ''emoji-skintone'') =
     Some \<lparr> tId = str ''emoji-skintone'', name = str ''Emoji Skin Tone'', category = str ''Emoji'',
            description = str ''Encode data in skin tone variations'',
            canEncode = True, canDecode = True, reversibility = Reversible, riskLevel = Low,
            encode = Some (\<lambda>input options. Inr (emojiSkinToneEncode input)),
            decode = Some (\<lambda>input options. Inr (emojiSkinToneDecode input)) \<rparr>"
  by (simp add: findById_def transformations_def str_def)

lemma codePoints_short: "cp \<in> set (codePoints s) \<Longrightarrow> length cp \<le> 2"
  by (induction s rule: codePoints.induct) (auto split: if_splits)

declare emojiSkinToneDecode_loop.simps [simp del]

text \<open>
  An element of \<open>[...input]\<close> is one code point, at most two code units, and the literal
  of \<open>baseEmoji\<close> has four: the comparison of the decoder never holds and no byte is pushed.
\<close>

lemma emojiSkinToneDecode_loop_idle:
  assumes "\<And>cp. cp \<in> set chs \<Longrightarrow> length cp \<le> 2"
  shows "emojiSkinToneDecode_loop chs i bytes = bytes"
proof (induction "length chs - i" arbitrary: i rule: less_induct)
  case less
  show ?case
  proof (cases "i + 3 < length chs")
    case True
    then have "chs ! i \<in> set chs"
      by simp
    then have "length (chs ! i) \<le> 2"
      by (rule assms)
    then have "chs ! i \<noteq> baseEmoji"
      by (auto simp: baseEmoji_def)
    moreover have "emojiSkinToneDecode_loop chs (i + 1) bytes = bytes"
      using True by (intro less) simp
    ultimately show ?thesis
      using True by (subst emojiSkinToneDecode_loop.simps) simp
  next
    case False
    then show ?thesis
      by (subst emojiSkinToneDecode_loop.simps) simp
  qed
qed

lemma emojiSkinToneDecode_empty: "emojiSkinToneDecode inp = []"
  unfolding emojiSkinToneDecode_def
  by (simp add: emojiSkinToneDecode_loop_idle codePoints_short Uint8Array_def
      TextDecoder_decode_def stripBOM_def utf8_initial_def)

lemma emojiSkinToneEncode_A:
  "emojiSkinToneEncode (str ''A'')
     = [63743, 252, 235, 227, 63743, 252, 232, 937, 63743, 252, 235, 227, 63743, 252, 232, 170]"
  by (simp add: emojiSkinToneEncode_def TextEncoder_encode_def utf8Bytes_def isLeadSurrogate_def
      isTrailSurrogate_def baseEmoji_def SKIN_TONES_def str_def)

lemma emojiSkinToneEncode_F:
  "emojiSkinToneEncode (str ''F'')
     = [63743, 252, 235, 227, 63743, 252, 232, 937, 63743, 252, 235, 227, 63743, 252, 232, 170]"
  by (simp add: emojiSkinToneEncode_def TextEncoder_encode_def utf8Bytes_def isLeadSurrogate_def
      isTrailSurrogate_def baseEmoji_def SKIN_TONES_def str_def)

text \<open>
  C2. The catalogue declares \<open>emoji-skintone\<close> reversible and gives it both operations,
  yet decoding the encoding of \<open>A\<close> gives the empty string. The decoder returns the empty
  string on every input, because it compares one code point of the input with a literal
  of four code units. The encoder is not injective either: it keeps \<open>floor(b / 32) mod 5\<close>
  and \<open>b mod 5\<close> of a byte \<open>b\<close>, so \<open>A\<close> and \<open>F\<close> have the same encoding and no decoder
  can return both.
\<close>

theorem emojiSkinTone_round_trip_fails:
  "(\<exists>t enc dec e.
      findById lib (str ''emoji-skintone'') = Some t \<and> reversibility t = Reversible
      \<and> encode t = Some enc \<and> decode t = Some dec
      \<and> enc (str ''A'') None = Inr e \<and> dec e None = Inr [])
   \<and> emojiSkinToneDecode (emojiSkinToneEncode (str ''A'')) = []
   \<and> emojiSkinToneDecode (emojiSkinToneEncode (str ''A'')) \<noteq> str ''A''
   \<and> emojiSkinToneDecode inp = []
   \<and> emojiSkinToneEncode (str ''A'') = emojiSkinToneEncode (str ''F'')
   \<and> str ''A'' \<noteq> str ''F''"
proof -
  have "str ''A'' \<noteq> []" "str ''A'' \<noteq> str ''F''"
    by (simp_all add: str_def)
  then show ?thesis
    by (simp add: emojiSkinTone_entry emojiSkinToneDecode_empty emojiSkinToneEncode_A
        emojiSkinToneEncode_F)
qed

lemma sha256_found:
  "findById lib (str ''sha256'') =
     Some \<lparr> tId = str ''sha256'', name = str ''SHA-256'', category = str ''Hash'',
            description = str ''SHA-256 cryptographic hash (256-bit)'',
            canEncode = True, canDecode = False, reversibility = Irreversible, riskLevel = High,
            encode = Some (\<lambda>input options. Inr (sha256Encode input)), decode = None \<rparr>"
  by (simp add: findById_def transformations_def str_def)

text \<open>
  C3. On the empty string the \<open>encode\<close> operation of \<open>sha256\<close> returns sixty-four
  zeros, not the SHA-256 digest \<open>e3b0c442...\<close> of the empty message.
\<close>

theorem sha256Encode_empty:
  "(\<exists>t enc. findById lib (str ''sha256'') = Some t \<and> encode t = Some enc
       \<and> enc (str '''') None = Inr (replicate 64 48))
   \<and> sha256Encode (str '''') = str ''0000000000000000000000000000000000000000000000000000000000000000''
   \<and> sha256Encode (str '''')
       \<noteq> str ''e3b0c44298fc1c149afbf4c8996fb92427ae41e4649b934ca495991b7852b855''"
proof -
  have a1: "toStringHex (nat 0) = [48]"
    by (simp add: hexDigitLower_def)
  have a2: "padStart 16 48 [48] = str ''0000000000000000''"
    by (simp add: padStart_def str_def eval_nat_numeral)
  have a3: "foldl (\<lambda>hash char. (push_bit 5 hash - hash + int char) AND 18446744073709551615)
              (0 :: int) (str '''') = 0"
    by (simp add: str_def)
  have a4: "take 64 (str ''0000000000000000'' @ str ''0000000000000000''
                     @ str ''0000000000000000'' @ str ''0000000000000000'')
            = str ''0000000000000000000000000000000000000000000000000000000000000000''"
    by (simp add: str_def)
  have z: "sha256Encode (str '''') = str ''0000000000000000000000000000000000000000000000000000000000000000''"
    unfolding sha256Encode_def Let_def a3 a1 a2 a4 by (rule refl)
  have r: "replicate 64 48 = str ''0000000000000000000000000000000000000000000000000000000000000000''"
    by (simp add: str_def eval_nat_numeral)
  have n: "str ''0000000000000000000000000000000000000000000000000000000000000000''
       \<noteq> str ''e3b0c44298fc1c149afbf4c8996fb92427ae41e4649b934ca495991b7852b855''"
    by (simp add: str_def)
  show ?thesis
    using n by (simp add: sha256_found z r)
qed

lemma md5_found:
  "findById lib (str ''md5'') =
     Some \<lparr> tId = str ''md5'', name = str ''MD5'', category = str ''Hash'',
            description = str ''MD5 hash (128-bit, legacy)'',
            canEncode = True, canDecode = False, reversibility = Irreversible, riskLevel = High,
            encode = Some (\<lambda>input options. Inr (md5Encode input)), decode = None \<rparr>"
  by (simp add: findById_def transformations_def str_def)

lemma md5_state_eq:
  "md5_chunks (md5_bytes []) 0
     \<lparr> regA = 0x67452301, regB = 0xefcdab89, regC = 0x98badcfe, regD = 0x10325476 \<rparr>
   = \<lparr> regA = 0xd98c1dd4, regB = 0x04b2008f, regC = 0x980980e9, regD = 0x7e42f8ec \<rparr>"
  by (simp add: md5_bytes_def md5_M_def md5_chunks.simps [of _ 0] md5_chunks.simps [of _ 64]
      md5_step_def md5_F_def md5_g_def md5_K_def md5_S_def rotateLeft_def)

lemma md5_toHex_values:
  "md5_toHex 0xd98c1dd4 = str ''d41d8cd9''" "md5_toHex 0x04b2008f = str ''8f00b204''"
  "md5_toHex 0x980980e9 = str ''e9800998''" "md5_toHex 0x7e42f8ec = str ''ecf8427e''"
  by (simp_all add: md5_toHex_def padStart_def hexDigitLower_def str_def)

text \<open>
  C6. The \<open>encode\<close> operation of \<open>md5\<close> is \<open>md5Encode\<close>, which returns
  \<open>d41d8cd98f00b204e9800998ecf8427e\<close> on the empty string.
\<close>

theorem md5Encode_empty:
  "(\<exists>t enc. findById lib (str ''md5'') = Some t \<and> encode t = Some enc
       \<and> enc (str '''') opts = Inr (str ''d41d8cd98f00b204e9800998ecf8427e''))
   \<and> md5Encode (str '''') = str ''d41d8cd98f00b204e9800998ecf8427e''"
proof -
  have e: "str '''' = []"
    by (simp add: str_def)
  have "md5Encode [] = str ''d41d8cd9'' @ str ''8f00b204'' @ str ''e9800998'' @ str ''ecf8427e''"
    unfolding md5Encode_def Let_def md5_state_eq by (simp add: md5_toHex_values)
  then have "md5Encode (str '''') = str ''d41d8cd98f00b204e9800998ecf8427e''"
    by (simp add: e str_def)
  then show ?thesis
    by (simp add: md5_found)
qed

end
